theory Spec2Isabelle
  imports Complex_Main
begin

section \<open>Conventions of the embedding\<close>

text \<open>
  The development embeds \<^verbatim>\<open>colibri/nonlinear.py\<close>: the class \<^verbatim>\<open>halofit_operator\<close>
  (constructor, \<^verbatim>\<open>compute_nonlinear_pk\<close> and the methods it calls) and the constructor of
  \<^verbatim>\<open>nonlinear_pk\<close>.

  \<^item> A numpy float is a \<^typ>\<open>real\<close>, a 1D array a \<^typ>\<open>real list\<close>, a 2D array a list
    of rows. Rounding, overflow and the infinities of IEEE arithmetic are not
    represented. The value \<^verbatim>\<open>nan\<close> is: a float that may be \<^verbatim>\<open>nan\<close> is a
    \<^typ>\<open>real option\<close>, with \<open>None\<close> for \<^verbatim>\<open>nan\<close>. The source produces \<^verbatim>\<open>nan\<close> from
    numbers at two places, \<^verbatim>\<open>u_NFW\<close> at \<^verbatim>\<open>x = 0\<close> and the square root of a negative
    Simpson sum in \<^verbatim>\<open>compute_sigma_8\<close>; every table computed from these values carries
    it. The other square roots, logarithms and powers are taken on the reals.
  \<^item> \<^verbatim>\<open>a**2.\<close> and \<^verbatim>\<open>a**3.\<close> are \<open>a\<^sup>2\<close> and \<open>a ^ 3\<close>, \<^verbatim>\<open>a**0.5\<close> is \<open>sqrt a\<close>, any
    other \<^verbatim>\<open>a**b\<close> is \<open>a powr b\<close>.
  \<^item> An exception is a value of type \<open>error\<close>; a function that can raise returns
    \<open>error + 'a\<close>. The branches of the model are the \<^verbatim>\<open>raise\<close> and \<^verbatim>\<open>assert\<close>
    statements of the source, the exceptions the source catches (\<^verbatim>\<open>ValueError\<close> of an
    interpolant evaluated outside its nodes), indexing out of range, and the
    exceptions that scipy raises inside \<^verbatim>\<open>cosmology.remove_bao\<close>.
  \<^item> The numerical routines of scipy and of \<^verbatim>\<open>colibri.useful_functions\<close>, and the
    methods of the cosmology instance that integrate or call a Boltzmann solver, are
    parameters: the fields of the records \<open>externals\<close> and \<open>cosmo\<close>.
\<close>

section \<open>Errors\<close>

datatype error =
    AssertionError string
  | IndexError string
  | ValueError string
  | NameError string
  | LibraryError string

definition ebind :: "error + 'a \<Rightarrow> ('a \<Rightarrow> error + 'b) \<Rightarrow> error + 'b" where
  "ebind m f = (case m of Inl e \<Rightarrow> Inl e | Inr x \<Rightarrow> f x)"

text \<open>A loop whose body can raise: it stops at the first error.\<close>

fun emap :: "('a \<Rightarrow> error + 'b) \<Rightarrow> 'a list \<Rightarrow> error + 'b list" where
  "emap f [] = Inr []"
| "emap f (x # xs) = ebind (f x) (\<lambda>y. ebind (emap f xs) (\<lambda>ys. Inr (y # ys)))"

section \<open>numpy primitives\<close>

type_synonym vec = "real list"
type_synonym mat = "real list list"

text \<open>
  A float that may be \<^verbatim>\<open>nan\<close>, and arithmetic on such floats: the result of an
  operation is \<^verbatim>\<open>nan\<close> as soon as one operand is.
\<close>

type_synonym fl = "real option"

definition fl2 :: "(real \<Rightarrow> real \<Rightarrow> real) \<Rightarrow> fl \<Rightarrow> fl \<Rightarrow> fl" where
  "fl2 f a b = (case a of None \<Rightarrow> None | Some x \<Rightarrow> map_option (f x) b)"

definition fl3 :: "(real \<Rightarrow> real \<Rightarrow> real \<Rightarrow> real) \<Rightarrow> fl \<Rightarrow> fl \<Rightarrow> fl \<Rightarrow> fl" where
  "fl3 f a b c = (case a of None \<Rightarrow> None | Some x \<Rightarrow> fl2 (f x) b c)"

text \<open>\<^verbatim>\<open>a.max()\<close> and \<^verbatim>\<open>a.min()\<close> of a non-empty array.\<close>

definition amax :: "vec \<Rightarrow> real" where
  "amax xs = Max (set xs)"

definition amin :: "vec \<Rightarrow> real" where
  "amin xs = Min (set xs)"

text \<open>\<^verbatim>\<open>np.trapz(y, x = x)\<close>: the sum of \<open>(x\<^sub>i\<^sub>+\<^sub>1 - x\<^sub>i) * (y\<^sub>i + y\<^sub>i\<^sub>+\<^sub>1) / 2\<close>.\<close>

fun trapz :: "vec \<Rightarrow> vec \<Rightarrow> real" where
  "trapz (y0 # y1 # ys) (x0 # x1 # xs) =
     (x1 - x0) * (y0 + y1) / 2 + trapz (y1 # ys) (x1 # xs)"
| "trapz ys xs = 0"

text \<open>\<^verbatim>\<open>np.trapz(y, dx = dx)\<close>.\<close>

fun trapz_dx :: "vec \<Rightarrow> real \<Rightarrow> real" where
  "trapz_dx (y0 # y1 # ys) dx = dx * (y0 + y1) / 2 + trapz_dx (y1 # ys) dx"
| "trapz_dx ys dx = 0"

text \<open>\<^verbatim>\<open>np.linspace(start, stop, num)\<close> and \<^verbatim>\<open>np.logspace(start, stop, num)\<close>.\<close>

definition linspace :: "real \<Rightarrow> real \<Rightarrow> nat \<Rightarrow> vec" where
  "linspace start stop num =
     map (\<lambda>i. start + real i * ((stop - start) / real (num - 1))) [0..<num]"

definition logspace :: "real \<Rightarrow> real \<Rightarrow> nat \<Rightarrow> vec" where
  "logspace start stop num = map (\<lambda>y. 10 powr y) (linspace start stop num)"

text \<open>
  \<^verbatim>\<open>np.gradient(f, h, edge_order = 2)\<close> on a uniform grid of at least three points:
  central differences inside, second-order one-sided differences at the two ends.
\<close>

definition gradient :: "fl list \<Rightarrow> real \<Rightarrow> fl list" where
  "gradient f h =
     (let n = length f in
      map (\<lambda>i. if i = 0 then
                  fl3 (\<lambda>f0 f1 f2. - (3 * f0 - 4 * f1 + f2) / (2 * h)) (f ! 0) (f ! 1) (f ! 2)
                else if i = n - 1 then
                  fl3 (\<lambda>f0 f1 f2. (3 * f0 - 4 * f1 + f2) / (2 * h))
                    (f ! (n - 1)) (f ! (n - 2)) (f ! (n - 3))
                else fl2 (\<lambda>f0 f1. (f0 - f1) / (2 * h)) (f ! (i + 1)) (f ! (i - 1)))
          [0..<n])"

text \<open>\<^verbatim>\<open>np.shape(pk) == (nz, nk)\<close> for a 2D array given as its list of rows.\<close>

definition shape_is :: "mat \<Rightarrow> nat \<Rightarrow> nat \<Rightarrow> bool" where
  "shape_is pk nz nk = (length pk = nz \<and> list_all (\<lambda>row. length row = nk) pk)"

text \<open>\<^verbatim>\<open>a[i]\<close>: indexing a row that does not exist raises \<^verbatim>\<open>IndexError\<close>.\<close>

definition getrow :: "'a list \<Rightarrow> nat \<Rightarrow> error + 'a" where
  "getrow a i =
     (if i < length a then Inr (a ! i)
      else Inl (IndexError ''index is out of bounds for axis 0''))"

section \<open>The sine and cosine integrals\<close>

text \<open>
  \<^verbatim>\<open>scipy.special.sici(x)\<close> returns the pair \<open>(Si x, Ci x)\<close>. The two functions are
  given by their everywhere convergent series,
  \<open>Si x = \<Sum>\<^sub>n (-1)\<^sup>n x\<^sup>2\<^sup>n\<^sup>+\<^sup>1 / ((2n+1) (2n+1)!)\<close> and
  \<open>Ci x = \<gamma> + ln \<bar>x\<bar> + \<Sum>\<^sub>n\<^sub>\<ge>\<^sub>1 (-1)\<^sup>n x\<^sup>2\<^sup>n / (2n (2n)!)\<close>, with \<open>\<gamma>\<close> Euler's constant.
  At \<open>x = 0\<close> scipy returns \<open>Ci = -\<infinity>\<close>; \<open>u_NFW\<close> below treats that point apart.
\<close>

definition Si_coeff :: "nat \<Rightarrow> real" where
  "Si_coeff n = (if even n then 0 else (- 1) ^ ((n - 1) div 2) / (real n * fact n))"

definition Si :: "real \<Rightarrow> real" where
  "Si x = (\<Sum>n. Si_coeff n * x ^ n)"

definition Cin_coeff :: "nat \<Rightarrow> real" where
  "Cin_coeff n = (if n = 0 then 0 else if even n then (- 1) ^ (n div 2) / (real n * fact n) else 0)"

definition Cin :: "real \<Rightarrow> real" where
  "Cin x = (\<Sum>n. Cin_coeff n * x ^ n)"

definition euler_gamma :: real where
  "euler_gamma = lim (\<lambda>n. (\<Sum>j = 1..n. 1 / real j) - ln (real n))"

definition Ci :: "real \<Rightarrow> real" where
  "Ci x = euler_gamma + ln \<bar>x\<bar> + Cin x"

section \<open>Collaborators\<close>

text \<open>
  The cosmology instance (\<^verbatim>\<open>colibri.cosmology.cosmo\<close>): the attributes the two classes
  read, and the methods they call. \<open>camb_XPk\<close> and \<open>class_XPk\<close> give the three linear
  spectra \<^verbatim>\<open>'cb-cb'\<close>, \<^verbatim>\<open>'cb-nu'\<close>, \<^verbatim>\<open>'nu-nu'\<close> for scales \<open>k\<close> and redshifts \<open>z\<close>.
  \<open>remove_bao\<close> is what \<^verbatim>\<open>remove_bao(k_in, pk_in)\<close> does on two arrays of the same
  length: it fits splines of scipy over \<^verbatim>\<open>k_in\<close>, which raise when scipy refuses the
  abscissae (a \<^verbatim>\<open>k_in\<close> that does not increase, for one); \<open>None\<close> is such an exception.
\<close>

record cosmo =
  Omega_m :: real
  Omega_cb :: real
  f_cb :: real
  f_nu_tot :: real
  rho_crit :: "real \<Rightarrow> real"
  Omega_m_z :: "real \<Rightarrow> real"
  D_1 :: "real \<Rightarrow> real"
  remove_bao :: "vec \<Rightarrow> vec \<Rightarrow> vec option"
  camb_XPk :: "vec \<Rightarrow> vec \<Rightarrow> mat \<times> mat \<times> mat"
  class_XPk :: "vec \<Rightarrow> vec \<Rightarrow> mat \<times> mat \<times> mat"
  EisensteinHu_Pk :: "vec \<Rightarrow> vec \<Rightarrow> mat"

text \<open>
  The numerical library: \<^verbatim>\<open>UF.extrapolate_log\<close> and \<^verbatim>\<open>UF.TopHat_window\<close> of
  \<^verbatim>\<open>colibri.useful_functions\<close>; the value at a point of the cubic interpolant
  \<^verbatim>\<open>si.interp1d(x, y, 'cubic')\<close>; the solver \<^verbatim>\<open>scipy.optimize.root(f, x0)\<close>; the
  derivative of \<^verbatim>\<open>si.UnivariateSpline(x, y, k = 4, s = 0)\<close>; \<^verbatim>\<open>scipy.special.gamma\<close>; and
  \<^verbatim>\<open>scipy.integrate.simps(y, x = x)\<close>.

  The solver is given a function that may raise (\<open>None\<close>) or return \<^verbatim>\<open>nan\<close>
  (\<open>Some None\<close>). It gives \<open>None\<close> when the function raises during the solve, and
  otherwise the pair of \<^verbatim>\<open>['x'][0]\<close>, its last iterate, and \<^verbatim>\<open>['success']\<close>, the flag that
  tells whether it converged.
\<close>

record externals =
  extrapolate_log :: "vec \<Rightarrow> vec \<Rightarrow> real \<Rightarrow> real \<Rightarrow> vec \<times> vec"
  TopHat_window :: "real \<Rightarrow> real"
  interp1d_cubic :: "vec \<Rightarrow> vec \<Rightarrow> real \<Rightarrow> real"
  optimize_root :: "(real \<Rightarrow> fl option) \<Rightarrow> real \<Rightarrow> (real \<times> bool) option"
  spline_derivative :: "vec \<Rightarrow> vec \<Rightarrow> real \<Rightarrow> real"
  special_gamma :: "real \<Rightarrow> real"
  simps :: "vec \<Rightarrow> vec \<Rightarrow> real"

text \<open>
  \<^verbatim>\<open>si.interp1d(x, y, 'cubic')(x_new)\<close> with the default \<^verbatim>\<open>bounds_error\<close>: a point
  below the smallest or above the largest node raises \<^verbatim>\<open>ValueError\<close> (\<open>None\<close>).
\<close>

definition interp1d :: "externals \<Rightarrow> vec \<Rightarrow> vec \<Rightarrow> real \<Rightarrow> real option" where
  "interp1d ext xs ys x_new =
     (if x_new < amin xs \<or> amax xs < x_new then None
      else Some (interp1d_cubic ext xs ys x_new))"

definition uncaught :: "real option \<Rightarrow> error + real" where
  "uncaught r =
     (case r of None \<Rightarrow> Inl (ValueError ''A value in x_new is outside the interpolation range.'')
              | Some v \<Rightarrow> Inr v)"

text \<open>
  The same interpolant over ordinates that may be \<^verbatim>\<open>nan\<close>: with one \<^verbatim>\<open>nan\<close> among them
  scipy builds a spline whose every value is \<^verbatim>\<open>nan\<close>. The bounds are checked all the same.
\<close>

definition interp1d_nan :: "externals \<Rightarrow> vec \<Rightarrow> fl list \<Rightarrow> real \<Rightarrow> fl option" where
  "interp1d_nan ext xs ys x_new =
     (if x_new < amin xs \<or> amax xs < x_new then None
      else Some (map_option (\<lambda>ys'. interp1d_cubic ext xs ys' x_new) (those ys)))"

text \<open>
  \<^verbatim>\<open>cosmo.TopHat_window\<close> and \<^verbatim>\<open>cosmo.compute_sigma_8\<close> of \<^verbatim>\<open>cosmology.py\<close>. The last
  line of \<^verbatim>\<open>compute_sigma_8\<close> is \<^verbatim>\<open>integral**.5\<close>: \<^verbatim>\<open>nan\<close> when Simpson's sum is negative.
\<close>

definition cosmo_TopHat_window :: "real \<Rightarrow> real" where
  "cosmo_TopHat_window x = 3 / x ^ 3 * (sin x - x * cos x)"

definition compute_sigma_8 :: "externals \<Rightarrow> vec \<Rightarrow> vec \<Rightarrow> error + fl" where
  "compute_sigma_8 ext k pk =
     (let R = 8 in
      if k = [] then Inl (ValueError ''zero-size array to reduction operation maximum which has no identity'')
      else if \<not> amax k \<ge> pi / R * 2 then Inl (AssertionError ''k_max too low to obtain a convergent result.'')
      else if \<not> amin k \<le> 0.001 then Inl (AssertionError ''k_min too high to obtain a convergent result.'')
      else if \<not> length k \<ge> 100 then Inl (AssertionError ''size of k too low to obtain a convergent result.'')
      else
        let integral = simps ext
             (map2 (\<lambda>kk p. kk ^ 3 * p / (2 * pi\<^sup>2) * (cosmo_TopHat_window (kk * R))\<^sup>2) k pk)
             (map ln k)
        in Inr (if integral < 0 then None else Some (sqrt integral)))"

section \<open>The class \<open>halofit_operator\<close>: the constructor\<close>

text \<open>
  The attributes that \<^verbatim>\<open>__init__\<close> sets before it calls \<^verbatim>\<open>compute_nonlinear_pk\<close>
  (\<^verbatim>\<open>self.z\<close>, \<^verbatim>\<open>self.k\<close>, ...), and the object once every table is computed. The
  tables that depend on \<^verbatim>\<open>sig8\<close> or on \<^verbatim>\<open>u_NFW\<close> hold \<open>None\<close> where the source holds
  \<^verbatim>\<open>nan\<close>.
\<close>

record halofit_setup =
  self_z :: vec
  self_k :: vec
  self_pk :: mat
  self_pk_nw :: mat
  self_pk_dw :: mat
  self_rho_field :: real
  self_mass :: vec

record halofit_operator = halofit_setup +
  self_sig8 :: "fl list"
  self_sig2 :: mat
  self_sigd100 :: vec
  self_sigd :: vec
  self_Deltav :: vec
  self_deltac :: "fl list"
  self_fdamp :: vec
  self_eta :: "fl list"
  self_k_star :: vec
  self_nu :: "fl list list"
  self_zf :: "fl list list"
  self_n_eff :: vec
  self_conc :: "fl list list"
  self_rv :: mat
  self_alpha :: vec
  self_rs :: "fl list list"
  self_pk_1h :: "real option list list"
  self_pk_2h :: mat
  self_pk_nl :: "real option list list"

text \<open>The three assertions on \<open>k\<close> that open both constructors.\<close>

definition k_assertions :: "vec \<Rightarrow> error + unit" where
  "k_assertions k =
     (if \<not> length k > 100 then
        Inl (AssertionError ''k must have a length greater than 100 points'')
      else if \<not> amax k \<ge> 10 then
        Inl (AssertionError ''Maximum wavenumber must be greater than 10 Mpc/h in order to achieve convergence'')
      else if \<not> amin k \<le> 0.001 then
        Inl (AssertionError ''Minimum wavenumber must be lowerer than 0.001 h/Mpc in order to achieve convergence'')
      else Inr ())"

text \<open>
  The block \<^verbatim>\<open>if BAO_smearing: ... else: ...\<close>, which gives \<^verbatim>\<open>(pk_nw, pk_dw)\<close>. With
  smearing, each of the three list comprehensions reads \<^verbatim>\<open>pk[i]\<close> for \<open>i < nz\<close>, and the
  first calls \<^verbatim>\<open>cosmology.remove_bao(k, pk[i])\<close>, whose first statement interpolates
  \<^verbatim>\<open>log(pk_in)\<close> over \<^verbatim>\<open>log(k_in)\<close>: \<^verbatim>\<open>si.interp1d\<close> raises \<^verbatim>\<open>ValueError\<close> when the two
  arrays differ in length. On arrays of the same length the outcome is that of the
  field \<open>remove_bao\<close>: the smooth spectrum, or an exception of scipy.
\<close>

definition remove_bao_call :: "cosmo \<Rightarrow> vec \<Rightarrow> vec \<Rightarrow> error + vec" where
  "remove_bao_call cosmology k_in pk_in =
     (if length pk_in \<noteq> length k_in then
        Inl (ValueError ''x and y arrays must be equal in length along interpolation axis.'')
      else case remove_bao cosmology k_in pk_in of
             None \<Rightarrow> Inl (LibraryError ''remove_bao'')
           | Some pk_nobao \<Rightarrow> Inr pk_nobao)"

definition de_wiggle :: "vec \<Rightarrow> vec \<Rightarrow> vec \<Rightarrow> real \<Rightarrow> vec" where
  "de_wiggle k pk_i pk_nw_i sv2_i =
     map2 (+) (map2 (*) (map2 (-) pk_i pk_nw_i) (map (\<lambda>kk. exp (- kk\<^sup>2 * sv2_i)) k)) pk_nw_i"

definition bao_smearing :: "cosmo \<Rightarrow> vec \<Rightarrow> mat \<Rightarrow> nat \<Rightarrow> bool \<Rightarrow> error + mat \<times> mat" where
  "bao_smearing cosmology k pk nz BAO_smearing =
     (if BAO_smearing then
        ebind (emap (\<lambda>i. ebind (getrow pk i) (remove_bao_call cosmology k)) [0..<nz]) (\<lambda>pk_nw.
          let sv2 = map (\<lambda>i. 1 / (6 * pi\<^sup>2) * trapz (map2 (*) k (pk ! i)) (map ln k)) [0..<nz];
              pk_dw = map (\<lambda>i. de_wiggle k (pk ! i) (pk_nw ! i) (sv2 ! i)) [0..<nz]
          in Inr (pk_nw, pk_dw))
      else Inr (pk, pk))"

text \<open>
  The constructor up to the mass grid. \<open>z\<close> and \<open>k\<close> stand for the 1D arrays
  \<^verbatim>\<open>np.atleast_1d(z)\<close> and \<^verbatim>\<open>np.atleast_1d(k)\<close>. The order of the source is kept: the
  assertions on \<open>k\<close>, the smearing block, the comparison of \<^verbatim>\<open>np.shape(pk)\<close> with
  \<open>(nz, nk)\<close>, the choice of the field. The message of the field error is written
  without its inner quotation marks.
\<close>

definition field_error :: error where
  "field_error = ValueError ''Field not recognized: choose between cb and tot.''"

definition field_density :: "cosmo \<Rightarrow> string \<Rightarrow> error + real" where
  "field_density cosmology field =
     (if field = ''cb'' then Inr (rho_crit cosmology 0 * Omega_cb cosmology)
      else if field = ''tot'' then Inr (rho_crit cosmology 0 * Omega_m cosmology)
      else Inl field_error)"

definition shape_error :: error where
  "shape_error = IndexError ''pk must be of shape (len(z), len(k))''"

definition halofit_setup_init ::
    "vec \<Rightarrow> vec \<Rightarrow> mat \<Rightarrow> string \<Rightarrow> bool \<Rightarrow> cosmo \<Rightarrow> error + halofit_setup" where
  "halofit_setup_init z k pk field BAO_smearing cosmology =
     ebind (k_assertions k) (\<lambda>_.
       let nz = length z; nk = length k in
       ebind (bao_smearing cosmology k pk nz BAO_smearing) (\<lambda>(pk_nw, pk_dw).
         if \<not> shape_is pk nz nk then Inl shape_error
         else ebind (field_density cosmology field) (\<lambda>rho_field.
           Inr \<lparr> self_z = z, self_k = k, self_pk = pk, self_pk_nw = pk_nw,
                 self_pk_dw = pk_dw, self_rho_field = rho_field,
                 self_mass = logspace 0 18 512 \<rparr>)))"

section \<open>The class \<open>halofit_operator\<close>: the methods\<close>

definition A_bar :: real where
  "A_bar = 3.13"

definition radius_of_mass :: "real \<Rightarrow> real \<Rightarrow> real" where
  "radius_of_mass rho_field M = (3 * M / (4 * pi * rho_field)) powr (1 / 3)"

text \<open>
  \<^verbatim>\<open>dlnk = np.log(kappa[1]/kappa[0])\<close> on the extrapolated scales: an extrapolation that
  gave fewer than two points would raise \<^verbatim>\<open>IndexError\<close>.
\<close>

definition log_step :: "vec \<Rightarrow> error + real" where
  "log_step kappa =
     (if length kappa < 2 then Inl (IndexError ''index is out of bounds for axis 0'')
      else Inr (ln (kappa ! 1 / kappa ! 0)))"

definition sigma2 :: "externals \<Rightarrow> vec \<Rightarrow> vec \<Rightarrow> vec \<Rightarrow> error + vec" where
  "sigma2 ext rr k pk =
     (let (kappa, P_kappa) = extrapolate_log ext k pk (1 / 10 ^ 6) (10 ^ 8) in
      ebind (log_step kappa) (\<lambda>dlnk.
        Inr (map (\<lambda>r. trapz_dx
                (map2 (\<lambda>kk p. kk ^ 3 * p / (2 * pi\<^sup>2) * (TopHat_window ext (kk * r))\<^sup>2)
                   kappa P_kappa) dlnk) rr)))"

definition sigma_d :: "externals \<Rightarrow> vec \<Rightarrow> mat \<Rightarrow> nat \<Rightarrow> real \<Rightarrow> error + vec" where
  "sigma_d ext k pk nz R =
     ebind (emap (\<lambda>i.
        let (k_ext, pk_ext) = extrapolate_log ext k (pk ! i) (1 / 10 ^ 6) (10 ^ 8) in
        ebind (log_step k_ext) (\<lambda>dlnk.
          Inr (trapz_dx
                (map2 (\<lambda>kk p. 1 / 3 * kk ^ 3 * p / (2 * pi\<^sup>2) / kk\<^sup>2 * (TopHat_window ext (kk * R))\<^sup>2)
                   k_ext pk_ext) dlnk))) [0..<nz])
       (\<lambda>integral. Inr (map sqrt integral))"

definition delta_c :: "cosmo \<Rightarrow> real \<Rightarrow> real \<Rightarrow> real" where
  "delta_c cosmology sig8 omm =
     (1.59 + 0.0314 * ln sig8) * (1 + 0.0123 * log 10 omm) * (1 + 0.262 * f_nu_tot cosmology)"

definition Delta_v :: "cosmo \<Rightarrow> real \<Rightarrow> real" where
  "Delta_v cosmology omm = 418 * omm powr (- 0.352) * (1 + 0.916 * f_nu_tot cosmology)"

definition alp :: "real \<Rightarrow> real" where
  "alp neff = 3.24 * 1.85 powr neff"

definition fd :: "real \<Rightarrow> real" where
  "fd sigd100 = 0.0095 * sigd100 powr 1.37"

definition eta_bloat :: "real \<Rightarrow> real" where
  "eta_bloat sig8 = 0.98 - 0.12 * A_bar - 0.3 * sig8"

definition k_s :: "real \<Rightarrow> real" where
  "k_s sigd = 0.584 * sigd powr (- 1)"

text \<open>
  \<^verbatim>\<open>u_NFW(c, x)\<close> at one abscissa. At \<open>x = 0\<close> the source computes
  \<^verbatim>\<open>Ci_2 - Ci_1 = -inf - (-inf)\<close> and \<^verbatim>\<open>num2*1./((1.+c)*x) = 0./0.\<close>, both \<^verbatim>\<open>nan\<close>.
\<close>

definition u_NFW :: "real \<Rightarrow> real \<Rightarrow> real option" where
  "u_NFW c x =
     (if x = 0 then None
      else
        let Si_1 = Si x; Ci_1 = Ci x;
            Si_2 = Si ((1 + c) * x); Ci_2 = Ci ((1 + c) * x);
            den = ln (1 + c) - c * 1 / (1 + c);
            num1 = sin x * (Si_2 - Si_1);
            num2 = sin (c * x);
            num3 = cos x * (Ci_2 - Ci_1)
        in Some (1 / den * (num1 + num3 - num2 * 1 / ((1 + c) * x))))"

text \<open>The sum \<^verbatim>\<open>num1+num3-num2*1./((1.+c)*x)\<close> that \<^verbatim>\<open>u_NFW\<close> divides by \<^verbatim>\<open>den\<close>.\<close>

definition nfw_numerator :: "real \<Rightarrow> real \<Rightarrow> real" where
  "nfw_numerator c x =
     sin x * (Si ((1 + c) * x) - Si x) + cos x * (Ci ((1 + c) * x) - Ci x)
       - sin (c * x) * 1 / ((1 + c) * x)"

text \<open>
  \<^verbatim>\<open>z_form\<close>: the table \<^verbatim>\<open>Dzf\<close> of the growth factor on \<^verbatim>\<open>z_tmp\<close>, its inverse
  \<^verbatim>\<open>zf_D\<close>, and the body of the loop over \<^verbatim>\<open>iz\<close>. \<^verbatim>\<open>sig_int(fm)\<close> is evaluated outside
  the \<^verbatim>\<open>try\<close>; \<^verbatim>\<open>zf_D(rhs)\<close> inside it, where \<^verbatim>\<open>ValueError\<close> gives \<^verbatim>\<open>self.z[iz]\<close>.

  \<^verbatim>\<open>zf_D(rhs)\<close> for a \<^verbatim>\<open>rhs\<close> that is \<^verbatim>\<open>nan\<close>: \<^verbatim>\<open>nan\<close> is neither below the smallest node
  nor above the largest, so nothing is raised and the value is \<^verbatim>\<open>nan\<close>. Then
  \<^verbatim>\<open>zf_D(rhs) < self.z[iz]\<close> is false, and the entry stays \<^verbatim>\<open>nan\<close>.
\<close>

definition growth_table :: "cosmo \<Rightarrow> vec" where
  "growth_table cosmology = map (D_1 cosmology) (linspace 0 30 1001)"

definition zf_D :: "externals \<Rightarrow> cosmo \<Rightarrow> fl \<Rightarrow> fl option" where
  "zf_D ext cosmology rhs =
     (case rhs of
        None \<Rightarrow> Some None
      | Some r \<Rightarrow> map_option Some (interp1d ext (growth_table cosmology) (linspace 0 30 1001) r))"

definition zf_entry :: "fl option \<Rightarrow> real \<Rightarrow> fl" where
  "zf_entry zf_D_rhs z_iz =
     (case zf_D_rhs of
        None \<Rightarrow> Some z_iz
      | Some None \<Rightarrow> None
      | Some (Some v) \<Rightarrow> Some (if v < z_iz then z_iz else v))"

definition z_form_row :: "externals \<Rightarrow> cosmo \<Rightarrow> vec \<Rightarrow> vec \<Rightarrow> fl \<Rightarrow> real \<Rightarrow> error + fl list" where
  "z_form_row ext cosmology mass sig2_iz deltac_iz z_iz =
     (let frac = 0.01;
          fm = map (\<lambda>m. frac * m) mass;
          (m_ext, sig_ext) =
             extrapolate_log ext mass (map sqrt sig2_iz) (1 / 10 * frac * mass ! 0) (10 * last mass);
          sig_int = interp1d ext m_ext sig_ext
      in ebind (emap (\<lambda>m. uncaught (sig_int m)) fm) (\<lambda>s_fmz.
           let rhs = map (\<lambda>s. map_option (\<lambda>d. D_1 cosmology z_iz * d / s) deltac_iz) s_fmz
           in Inr (map (\<lambda>r. zf_entry (zf_D ext cosmology r) z_iz) rhs)))"


definition z_form :: "externals \<Rightarrow> cosmo \<Rightarrow> vec \<Rightarrow> vec \<Rightarrow> mat \<Rightarrow> fl list \<Rightarrow> error + fl list list" where
  "z_form ext cosmology z mass sig2 deltac =
     emap (\<lambda>iz. z_form_row ext cosmology mass (sig2 ! iz) (deltac ! iz) (z ! iz)) [0..<length z]"

definition c_bull :: "real \<Rightarrow> real \<Rightarrow> real" where
  "c_bull zf z = A_bar * (1 + zf) / (1 + z)"

definition ST_mass_fun :: "externals \<Rightarrow> real \<Rightarrow> real" where
  "ST_mass_fun ext nu =
     (let a = 0.707; p = 0.3; n = nu\<^sup>2;
          A = 1 / (1 + 2 powr (- p) * special_gamma ext (0.5 - p) / sqrt pi)
      in A * sqrt (2 * a * n / pi) * (1 + 1 / (a * nu\<^sup>2) powr p) * exp (- a * nu\<^sup>2 / 2))"

definition dndM :: "externals \<Rightarrow> real \<Rightarrow> vec \<Rightarrow> real \<Rightarrow> fl list list \<Rightarrow> fl list list" where
  "dndM ext rho_field m dlnm nu =
     map (\<lambda>nu_i.
        let log_der = map2 (fl2 (/)) (gradient nu_i dlnm) nu_i;
            mass_fun = map (map_option (ST_mass_fun ext)) nu_i
        in map (\<lambda>(m_j, l_j, f_j). fl2 (\<lambda>l f. rho_field / m_j\<^sup>2 * l * f) l_j f_j)
             (zip m (zip log_der mass_fun)))
       nu"

section \<open>\<open>compute_nonlinear_pk\<close>\<close>

text \<open>
  The body of the loop \<^verbatim>\<open>for i in xrange(self.nz)\<close> that finds the mass \<^verbatim>\<open>M_1\<close> and
  the effective spectral index. \<^verbatim>\<open>sig_int_2\<close> interpolates \<^verbatim>\<open>sig2[i] - deltac[i]**2\<close>
  over \<^verbatim>\<open>log10(mass)\<close>. The source takes \<^verbatim>\<open>['x'][0]\<close> of what the solver returns and does
  not read \<^verbatim>\<open>['success']\<close>; the \<^verbatim>\<open>except ValueError\<close> branch takes the seed.
\<close>

definition M_1_seed :: "real \<Rightarrow> real" where
  "M_1_seed z_i = 13 - 1.75 * (1 + z_i)"

definition sig_int_2 :: "externals \<Rightarrow> vec \<Rightarrow> vec \<Rightarrow> fl \<Rightarrow> real \<Rightarrow> fl option" where
  "sig_int_2 ext mass sig2_i deltac_i =
     interp1d_nan ext (map (log 10) mass) (map (\<lambda>s. map_option (\<lambda>d. s - d\<^sup>2) deltac_i) sig2_i)"

definition M_1 :: "externals \<Rightarrow> vec \<Rightarrow> vec \<Rightarrow> fl \<Rightarrow> real \<Rightarrow> real" where
  "M_1 ext mass sig2_i deltac_i z_i =
     (case optimize_root ext (sig_int_2 ext mass sig2_i deltac_i) (M_1_seed z_i) of
        Some (x, success) \<Rightarrow> 10 powr x
      | None \<Rightarrow> 10 powr (M_1_seed z_i))"

definition n_eff_at :: "externals \<Rightarrow> vec \<Rightarrow> vec \<Rightarrow> fl \<Rightarrow> real \<Rightarrow> real" where
  "n_eff_at ext mass sig2_i deltac_i z_i =
     (let spl_logder = spline_derivative ext (map ln mass) (map ln sig2_i);
          logder = spl_logder (ln (M_1 ext mass sig2_i deltac_i z_i))
      in - 3 - 3 * logder)"

text \<open>
  The body of the loop over \<^verbatim>\<open>iz\<close> and \<^verbatim>\<open>ik\<close> that assembles the spectra: the mass
  integral, the factor that multiplies \<^verbatim>\<open>pk_1h[iz]\<close>, the two-halo term and the blend.
\<close>

definition one_halo_integral :: "vec \<Rightarrow> real \<Rightarrow> fl list \<Rightarrow> fl list \<Rightarrow> fl" where
  "one_halo_integral mass rho_field hmf_iz u_iz_ik =
     map_option
       (\<lambda>integrand. trapz integrand (map ln mass))
       (those (map (\<lambda>(m, h, uu). fl2 (\<lambda>h' u'. ((m / rho_field)\<^sup>2 * h' * u'\<^sup>2) * m) h uu)
                 (zip mass (zip hmf_iz u_iz_ik))))"

definition one_halo_damping :: "real \<Rightarrow> real \<Rightarrow> real" where
  "one_halo_damping kk k_star_iz = (1 - (exp (- kk / k_star_iz))\<^sup>2) ^ 3"

definition two_halo :: "real \<Rightarrow> real \<Rightarrow> real \<Rightarrow> real" where
  "two_halo pk_dw_iz_ik fdamp_iz tanh2_iz_ik = pk_dw_iz_ik * (1 - fdamp_iz * tanh2_iz_ik)"

definition blend :: "real \<Rightarrow> real \<Rightarrow> real \<Rightarrow> real" where
  "blend alpha_iz p1 p2 = (p1 powr alpha_iz + p2 powr alpha_iz) powr (1 / alpha_iz)"

text \<open>The tables of \<^verbatim>\<open>compute_nonlinear_pk\<close>, one definition for each assignment.\<close>

definition deltac_table :: "cosmo \<Rightarrow> fl list \<Rightarrow> vec \<Rightarrow> fl list" where
  "deltac_table cosmology sig8 ocz =
     map2 (\<lambda>s8 om. map_option (\<lambda>s. delta_c cosmology s om) s8) sig8 ocz"

definition nu_table :: "fl list \<Rightarrow> mat \<Rightarrow> fl list list" where
  "nu_table deltac sig2 =
     map2 (\<lambda>d row. map (\<lambda>s2. map_option (\<lambda>d'. d' / sqrt s2) d) row) deltac sig2"

definition n_eff_table :: "externals \<Rightarrow> vec \<Rightarrow> mat \<Rightarrow> fl list \<Rightarrow> vec \<Rightarrow> vec" where
  "n_eff_table ext mass sig2 deltac z =
     map (\<lambda>i. n_eff_at ext mass (sig2 ! i) (deltac ! i) (z ! i)) [0..<length z]"

definition conc_table :: "fl list list \<Rightarrow> vec \<Rightarrow> fl list list" where
  "conc_table zf z =
     map (\<lambda>i. map (map_option (\<lambda>zf_ij. c_bull zf_ij (z ! i))) (zf ! i)) [0..<length z]"

definition rv_table :: "vec \<Rightarrow> real \<Rightarrow> vec \<Rightarrow> nat \<Rightarrow> mat" where
  "rv_table mass rho_field Deltav nz =
     map (\<lambda>i. map (\<lambda>m. ((3 * m) / (4 * pi * rho_field * Deltav ! i)) powr (1 / 3)) mass) [0..<nz]"

definition rs_table :: "mat \<Rightarrow> fl list list \<Rightarrow> fl list list" where
  "rs_table rv conc = map2 (map2 (\<lambda>r. map_option (\<lambda>c. r / c))) rv conc"

definition R_bloat_table :: "fl list list \<Rightarrow> fl list \<Rightarrow> fl list list \<Rightarrow> nat \<Rightarrow> nat \<Rightarrow> fl list list" where
  "R_bloat_table nu eta rs nz nm =
     map (\<lambda>i. map (\<lambda>j. fl3 (\<lambda>n e r. n powr e * r) (nu ! i ! j) (eta ! i) (rs ! i ! j)) [0..<nm])
       [0..<nz]"

definition u_table :: "vec \<Rightarrow> fl list list \<Rightarrow> fl list list \<Rightarrow> nat \<Rightarrow> nat \<Rightarrow> fl list list list" where
  "u_table k conc R_bloat nz nm =
     map (\<lambda>i. map (\<lambda>j. map (\<lambda>kk.
             case conc ! i ! j of
               None \<Rightarrow> None
             | Some c \<Rightarrow> (case R_bloat ! i ! j of
                            None \<Rightarrow> None
                          | Some R \<Rightarrow> u_NFW c (kk * R))) k) [0..<nm]) [0..<nz]"

definition tanh2_table :: "vec \<Rightarrow> vec \<Rightarrow> vec \<Rightarrow> nat \<Rightarrow> mat" where
  "tanh2_table k sigd fdamp nz =
     map (\<lambda>iz. map (\<lambda>kk. (tanh (kk * sigd ! iz / sqrt (fdamp ! iz)))\<^sup>2) k) [0..<nz]"

definition pk_1h_table ::
    "vec \<Rightarrow> real \<Rightarrow> vec \<Rightarrow> vec \<Rightarrow> fl list list \<Rightarrow> fl list list list \<Rightarrow> nat \<Rightarrow> fl list list" where
  "pk_1h_table mass rho_field k k_star hmf u nz =
     map (\<lambda>iz.
        map2 (\<lambda>integral kk. map_option (\<lambda>v. v * one_halo_damping kk (k_star ! iz)) integral)
          (map (\<lambda>ik. one_halo_integral mass rho_field (hmf ! iz)
                        (map (\<lambda>j. u ! iz ! j ! ik) [0..<length mass])) [0..<length k])
          k) [0..<nz]"

definition pk_2h_table :: "mat \<Rightarrow> vec \<Rightarrow> mat \<Rightarrow> nat \<Rightarrow> mat" where
  "pk_2h_table pk_dw fdamp tanh2 nz =
     map (\<lambda>iz. map2 (\<lambda>p t. two_halo p (fdamp ! iz) t) (pk_dw ! iz) (tanh2 ! iz)) [0..<nz]"

definition pk_nl_table :: "vec \<Rightarrow> real option list list \<Rightarrow> mat \<Rightarrow> nat \<Rightarrow> real option list list" where
  "pk_nl_table alpha pk_1h pk_2h nz =
     map (\<lambda>iz. map2 (\<lambda>p1 p2. map_option (\<lambda>v. blend (alpha ! iz) v p2) p1)
                  (pk_1h ! iz) (pk_2h ! iz)) [0..<nz]"

text \<open>The local arrays \<^verbatim>\<open>hmf\<close> and \<^verbatim>\<open>u\<close>, as functions of the attributes they are built from.\<close>

definition hmf_of :: "externals \<Rightarrow> real \<Rightarrow> vec \<Rightarrow> fl list list \<Rightarrow> fl list list" where
  "hmf_of ext rho_field mass nu = dndM ext rho_field mass (ln (mass ! 1 / mass ! 0)) nu"

definition u_of ::
    "vec \<Rightarrow> vec \<Rightarrow> fl list list \<Rightarrow> fl list \<Rightarrow> fl list list \<Rightarrow> fl list list \<Rightarrow> nat \<Rightarrow> fl list list list" where
  "u_of k mass nu eta rs conc nz =
     u_table k conc (R_bloat_table nu eta rs nz (length mass)) nz (length mass)"

definition compute_nonlinear_pk ::
    "externals \<Rightarrow> cosmo \<Rightarrow> halofit_setup \<Rightarrow> error + halofit_operator" where
  "compute_nonlinear_pk ext cosmology s =
     (let z = self_z s; k = self_k s; pk = self_pk s; pk_dw = self_pk_dw s;
          mass = self_mass s; rho_field = self_rho_field s;
          nz = length z;
          rr = map (radius_of_mass rho_field) mass
      in
      ebind (emap (\<lambda>i.
               ebind (compute_sigma_8 ext k (pk ! i)) (\<lambda>s8.
               ebind (sigma2 ext rr k (pk ! i)) (\<lambda>s2. Inr (s8, s2)))) [0..<nz]) (\<lambda>sig.
      ebind (sigma_d ext k pk nz 100) (\<lambda>sigd100.
      ebind (sigma_d ext k pk nz (1 / 10 ^ 3)) (\<lambda>sigd.
        let sig8 = map fst sig; sig2 = map snd sig;
            omz = map (Omega_m_z cosmology) z;
            ocz = map (\<lambda>om. om * Omega_cb cosmology / Omega_m cosmology) omz;
            Deltav = map (Delta_v cosmology) ocz;
            deltac = deltac_table cosmology sig8 ocz;
            fdamp = map fd sigd100;
            eta = map (map_option eta_bloat) sig8;
            k_star = map k_s sigd;
            nu = nu_table deltac sig2
        in
        ebind (z_form ext cosmology z mass sig2 deltac) (\<lambda>zf.
          let n_eff = n_eff_table ext mass sig2 deltac z;
              conc = conc_table zf z;
              rv = rv_table mass rho_field Deltav nz;
              alpha = map alp n_eff;
              rs = rs_table rv conc;
              u = u_of k mass nu eta rs conc nz;
              hmf = hmf_of ext rho_field mass nu;
              tanh2 = tanh2_table k sigd fdamp nz;
              pk_1h = pk_1h_table mass rho_field k k_star hmf u nz;
              pk_2h = pk_2h_table pk_dw fdamp tanh2 nz;
              pk_nl = pk_nl_table alpha pk_1h pk_2h nz
          in Inr \<lparr> self_z = z, self_k = k, self_pk = pk, self_pk_nw = self_pk_nw s,
                   self_pk_dw = pk_dw, self_rho_field = rho_field, self_mass = mass,
                   self_sig8 = sig8, self_sig2 = sig2, self_sigd100 = sigd100, self_sigd = sigd,
                   self_Deltav = Deltav, self_deltac = deltac, self_fdamp = fdamp,
                   self_eta = eta, self_k_star = k_star, self_nu = nu, self_zf = zf,
                   self_n_eff = n_eff, self_conc = conc, self_rv = rv, self_alpha = alpha,
                   self_rs = rs, self_pk_1h = pk_1h, self_pk_2h = pk_2h,
                   self_pk_nl = pk_nl \<rparr>)))))"

text \<open>\<^verbatim>\<open>halofit_operator.__init__\<close>: the set-up, then \<^verbatim>\<open>self.compute_nonlinear_pk()\<close>.\<close>

definition halofit_operator_init ::
    "externals \<Rightarrow> vec \<Rightarrow> vec \<Rightarrow> mat \<Rightarrow> string \<Rightarrow> bool \<Rightarrow> cosmo \<Rightarrow> error + halofit_operator" where
  "halofit_operator_init ext z k pk field BAO_smearing cosmology =
     ebind (halofit_setup_init z k pk field BAO_smearing cosmology)
       (compute_nonlinear_pk ext cosmology)"

section \<open>The class \<open>nonlinear_pk\<close>\<close>

record nonlinear_pk =
  nl_z :: vec
  nl_k :: vec
  nl_pk_cbcb :: mat
  nl_pk_cbnu :: mat
  nl_pk_nunu :: mat
  nl_pk_nw :: mat
  nl_pk_dw :: mat
  nl_pk_nl_cbcb :: "real option list list"
  nl_pk_nw_cbcb :: mat
  nl_pk_dw_cbcb :: mat
  nl_pk_nl :: "real option list list"

definition zeros_like :: "mat \<Rightarrow> mat" where
  "zeros_like a = map (map (\<lambda>_. 0)) a"

text \<open>The linear spectra \<^verbatim>\<open>(pk_cbcb, pk_cbnu, pk_nunu)\<close> for the chosen Boltzmann code.\<close>

definition linear_spectra :: "cosmo \<Rightarrow> string \<Rightarrow> vec \<Rightarrow> vec \<Rightarrow> error + mat \<times> mat \<times> mat" where
  "linear_spectra cosmology code k z =
     (if code \<in> set [''camb'', ''Camb'', ''CAMB''] then Inr (camb_XPk cosmology k z)
      else if code \<in> set [''class'', ''Class'', ''CLASS''] then Inr (class_XPk cosmology k z)
      else if code \<in> set [''EH'', ''eh'', ''EisensteinHu'', ''Eisenstein-Hu''] then
        (let pk_l = EisensteinHu_Pk cosmology k z in Inr (pk_l, zeros_like pk_l, zeros_like pk_l))
      else Inl (NameError ''Code not recognized. Choose among CAMB, CLASS and EH.''))"

text \<open>
  One entry of \<^verbatim>\<open>f_cb**2.*pk_nl_cbcb + 2.*f_nu_tot*f_cb*pk_cbnu + f_nu_tot**2.*pk_nunu\<close>,
  and the sum over the three arrays.
\<close>

definition total_matter :: "cosmo \<Rightarrow> real \<Rightarrow> real \<Rightarrow> real \<Rightarrow> real" where
  "total_matter cosmology nl_cbcb cbnu nunu =
     (f_cb cosmology)\<^sup>2 * nl_cbcb + 2 * f_nu_tot cosmology * f_cb cosmology * cbnu
       + (f_nu_tot cosmology)\<^sup>2 * nunu"

definition total_matter_table ::
    "cosmo \<Rightarrow> real option list list \<Rightarrow> mat \<Rightarrow> mat \<Rightarrow> real option list list" where
  "total_matter_table cosmology pk_nl_cbcb pk_cbnu pk_nunu =
     map (\<lambda>(row_nl, row_cbnu, row_nunu).
            map (\<lambda>(p, cbnu, nunu). map_option (\<lambda>v. total_matter cosmology v cbnu nunu) p)
              (zip row_nl (zip row_cbnu row_nunu)))
       (zip pk_nl_cbcb (zip pk_cbnu pk_nunu))"

definition nonlinear_pk_init ::
    "externals \<Rightarrow> vec \<Rightarrow> vec \<Rightarrow> string \<Rightarrow> bool \<Rightarrow> cosmo \<Rightarrow> error + nonlinear_pk" where
  "nonlinear_pk_init ext z k code BAO_smearing cosmology =
     ebind (k_assertions k) (\<lambda>_.
     ebind (linear_spectra cosmology code k z) (\<lambda>(pk_cbcb, pk_cbnu, pk_nunu).
     ebind (bao_smearing cosmology k pk_cbcb (length z) BAO_smearing) (\<lambda>(pk_nw, pk_dw).
     ebind (halofit_operator_init ext z k pk_cbcb ''cb'' BAO_smearing cosmology) (\<lambda>HO.
       Inr \<lparr> nl_z = z, nl_k = k, nl_pk_cbcb = pk_cbcb, nl_pk_cbnu = pk_cbnu,
             nl_pk_nunu = pk_nunu, nl_pk_nw = pk_nw, nl_pk_dw = pk_dw,
             nl_pk_nl_cbcb = self_pk_nl HO, nl_pk_nw_cbcb = self_pk_nw HO,
             nl_pk_dw_cbcb = self_pk_dw HO,
             nl_pk_nl = total_matter_table cosmology (self_pk_nl HO) pk_cbnu pk_nunu \<rparr>))))"

section \<open>A concrete instance of the collaborators\<close>

text \<open>
  The theorems below hold for every cosmology and every numerical library. To apply
  them to concrete inputs we fix one instance of each: a flat table of spectra, a
  de-wiggling that returns its input, an extrapolation that adds the two end points, a
  solver that gives up at its seed, a Simpson sum that is positive. \<open>k_grid\<close> is a grid
  of 101 scales from 0.001 to 13.78, evenly spaced in \<open>ln k\<close>. \<open>extrapolation_covers\<close>
  is what \<^verbatim>\<open>compute_nonlinear_pk\<close> needs of \<^verbatim>\<open>UF.extrapolate_log(x, y, xmin, xmax)\<close>: at
  least two points, reaching \<open>xmin\<close> and \<open>xmax\<close>.

  Two variants of the library: in \<open>externals_stalled\<close> the solver stops one decade above
  its seed without having converged; in \<open>externals_negative\<close> the Simpson sum is
  negative, as it can be on scales that are not evenly spaced in \<open>ln k\<close>, such as the
  102 scales \<open>k_uneven\<close> from 0.001 to 10.1.
\<close>

definition extrapolation_covers :: "externals \<Rightarrow> bool" where
  "extrapolation_covers ext =
     (\<forall>x y lo hi. 2 \<le> length (fst (extrapolate_log ext x y lo hi))
        \<and> amin (fst (extrapolate_log ext x y lo hi)) \<le> lo
        \<and> hi \<le> amax (fst (extrapolate_log ext x y lo hi)))"

definition k_grid :: vec where
  "k_grid = map (\<lambda>i. (11 / 10) ^ i / 1000) [0..<101]"


definition flat_spectrum :: "vec \<Rightarrow> vec \<Rightarrow> mat" where
  "flat_spectrum k z = map (\<lambda>_. map (\<lambda>_. 1) k) z"

definition cosmo_example :: cosmo where
  "cosmo_example =
     \<lparr> Omega_m = 0.3, Omega_cb = 0.3, f_cb = 1, f_nu_tot = 0,
       rho_crit = (\<lambda>z. 1), Omega_m_z = (\<lambda>z. 0.3), D_1 = (\<lambda>z. 1 / (1 + z)),
       remove_bao = (\<lambda>k pk. Some pk),
       camb_XPk = (\<lambda>k z. (flat_spectrum k z, flat_spectrum k z, flat_spectrum k z)),
       class_XPk = (\<lambda>k z. (flat_spectrum k z, flat_spectrum k z, flat_spectrum k z)),
       EisensteinHu_Pk = flat_spectrum \<rparr>"

definition externals_example :: externals where
  "externals_example =
     \<lparr> extrapolate_log = (\<lambda>x y lo hi. (lo # x @ [hi], 0 # y @ [0])),
       TopHat_window = (\<lambda>x. 1),
       interp1d_cubic = (\<lambda>xs ys x. 1),
       optimize_root = (\<lambda>f x0. map_option (\<lambda>_. (x0, False)) (f x0)),
       spline_derivative = (\<lambda>xs ys x. 0),
       special_gamma = (\<lambda>x. 1),
       simps = (\<lambda>y x. 1) \<rparr>"



section \<open>Auxiliary facts\<close>

lemma ebind_Inl [simp]: "ebind (Inl e) f = Inl e"
  by (simp add: ebind_def)

lemma ebind_Inr [simp]: "ebind (Inr x) f = f x"
  by (simp add: ebind_def)

lemma ebind_eq_Inr: "ebind m f = Inr y \<longleftrightarrow> (\<exists>x. m = Inr x \<and> f x = Inr y)"
  by (cases m) simp_all

lemma ebind_eq_Inl: "ebind m f = Inl e \<longleftrightarrow> m = Inl e \<or> (\<exists>x. m = Inr x \<and> f x = Inl e)"
  by (cases m) simp_all

lemma emap_all_Inr: "(\<And>x. x \<in> set xs \<Longrightarrow> f x = Inr (g x)) \<Longrightarrow> emap f xs = Inr (map g xs)"
  by (induction xs) simp_all

lemma emap_Inr_length: "emap f xs = Inr ys \<Longrightarrow> length ys = length xs"
  by (induction xs arbitrary: ys) (auto simp: ebind_eq_Inr)

lemma emap_Inr_nth: "emap f xs = Inr ys \<Longrightarrow> i < length xs \<Longrightarrow> f (xs ! i) = Inr (ys ! i)"
proof (induction xs arbitrary: ys i)
  case Nil
  then show ?case by simp
next
  case (Cons x xs)
  from Cons.prems(1) obtain y ys' where y: "f x = Inr y" and ys': "emap f xs = Inr ys'"
    and ys: "ys = y # ys'"
    by (auto simp: ebind_eq_Inr)
  show ?case
  proof (cases i)
    case 0
    with y ys show ?thesis by simp
  next
    case (Suc j)
    with Cons.prems(2) have "j < length xs" by simp
    from Cons.IH [OF ys' this] Suc ys show ?thesis by simp
  qed
qed

lemma emap_Inl: "emap f xs = Inl e \<Longrightarrow> \<exists>x \<in> set xs. f x = Inl e"
  by (induction xs) (auto simp: ebind_eq_Inl)

lemma k_assertions_pass:
  "k_assertions k = Inr () \<longleftrightarrow> length k > 100 \<and> amax k \<ge> 10 \<and> amin k \<le> 0.001"
  by (simp add: k_assertions_def)

lemma k_assertions_fail:
  "length k \<le> 100 \<or> amax k < 10 \<or> amin k > 0.001 \<Longrightarrow>
     \<exists>msg. k_assertions k = Inl (AssertionError msg)"
  by (auto simp: k_assertions_def)

lemma length_k_grid: "length k_grid = 101"
  by (simp add: k_grid_def)

lemma amax_k_grid: "amax k_grid \<ge> 10"
proof -
  have "(11 / 10) ^ 100 / 1000 \<in> (\<lambda>i. (11 / 10 :: real) ^ i / 1000) ` {0..<101}"
    by (rule imageI) simp
  then have "((11 / 10) ^ 100 / 1000 :: real) \<in> set k_grid"
    unfolding k_grid_def by simp
  then have "(11 / 10) ^ 100 / 1000 \<le> Max (set k_grid)" by (intro Max_ge) simp_all
  moreover have "(10 :: real) \<le> (11 / 10) ^ 100 / 1000" by (simp add: power_divide)
  ultimately show ?thesis unfolding amax_def by linarith
qed

lemma amin_k_grid: "amin k_grid \<le> 0.001"
proof -
  have "(11 / 10) ^ 0 / 1000 \<in> (\<lambda>i. (11 / 10 :: real) ^ i / 1000) ` {0..<101}"
    by (rule imageI) simp
  then have "(1 / 1000 :: real) \<in> set k_grid"
    unfolding k_grid_def by simp
  then have "Min (set k_grid) \<le> 1 / 1000" by (intro Min_le) simp_all
  then show ?thesis by (simp add: amin_def)
qed





lemma compute_nonlinear_pk_fields:
  assumes "compute_nonlinear_pk ext cosmology s = Inr HO"
  shows "self_z HO = self_z s" and "self_k HO = self_k s" and "self_pk HO = self_pk s"
    and "self_pk_nw HO = self_pk_nw s" and "self_pk_dw HO = self_pk_dw s"
    and "self_rho_field HO = self_rho_field s" and "self_mass HO = self_mass s"
    and "self_k_star HO = map k_s (self_sigd HO)"
    and "self_fdamp HO = map fd (self_sigd100 HO)"
    and "z_form ext cosmology (self_z HO) (self_mass HO) (self_sig2 HO) (self_deltac HO)
           = Inr (self_zf HO)"
    and "self_n_eff HO
           = n_eff_table ext (self_mass HO) (self_sig2 HO) (self_deltac HO) (self_z HO)"
    and "self_alpha HO = map alp (self_n_eff HO)"
    and "self_pk_1h HO
           = pk_1h_table (self_mass HO) (self_rho_field HO) (self_k HO) (self_k_star HO)
               (hmf_of ext (self_rho_field HO) (self_mass HO) (self_nu HO))
               (u_of (self_k HO) (self_mass HO) (self_nu HO) (self_eta HO) (self_rs HO)
                  (self_conc HO) (length (self_z HO)))
               (length (self_z HO))"
    and "self_pk_2h HO
           = pk_2h_table (self_pk_dw HO) (self_fdamp HO)
               (tanh2_table (self_k HO) (self_sigd HO) (self_fdamp HO) (length (self_z HO)))
               (length (self_z HO))"
    and "self_pk_nl HO
           = pk_nl_table (self_alpha HO) (self_pk_1h HO) (self_pk_2h HO) (length (self_z HO))"
    and "self_deltac HO
           = deltac_table cosmology (self_sig8 HO)
               (map (\<lambda>om. om * Omega_cb cosmology / Omega_m cosmology)
                  (map (Omega_m_z cosmology) (self_z HO)))"
    and "self_eta HO = map (map_option eta_bloat) (self_sig8 HO)"
    and "self_nu HO = nu_table (self_deltac HO) (self_sig2 HO)"
    and "self_conc HO = conc_table (self_zf HO) (self_z HO)"
    and "self_Deltav HO
           = map (Delta_v cosmology)
               (map (\<lambda>om. om * Omega_cb cosmology / Omega_m cosmology)
                  (map (Omega_m_z cosmology) (self_z HO)))"
    and "self_rv HO
           = rv_table (self_mass HO) (self_rho_field HO) (self_Deltav HO) (length (self_z HO))"
    and "self_rs HO = rs_table (self_rv HO) (self_conc HO)"
    and "sigma_d ext (self_k HO) (self_pk HO) (length (self_z HO)) 100 = Inr (self_sigd100 HO)"
    and "sigma_d ext (self_k HO) (self_pk HO) (length (self_z HO)) (1 / 10 ^ 3)
           = Inr (self_sigd HO)"
  using assms unfolding compute_nonlinear_pk_def Let_def
  by (auto simp: ebind_eq_Inr)


lemma emap_ex_Inr: "(\<And>x. x \<in> set xs \<Longrightarrow> \<exists>y. f x = Inr y) \<Longrightarrow> \<exists>ys. emap f xs = Inr ys"
proof (induction xs)
  case Nil
  show ?case by simp
next
  case (Cons x xs)
  from Cons.prems obtain y where "f x = Inr y" by auto
  moreover from Cons obtain ys where "emap f xs = Inr ys" by auto
  ultimately show ?case by simp
qed



lemma logspace_nth: "i < n \<Longrightarrow> logspace a b n ! i = 10 powr (a + real i * ((b - a) / real (n - 1)))"
  by (simp add: logspace_def linspace_def)

lemma logspace_mem:
  "m \<in> set (logspace a b n) \<Longrightarrow> \<exists>i<n. m = 10 powr (a + real i * ((b - a) / real (n - 1)))"
  unfolding logspace_def linspace_def by auto

lemma logspace_last:
  "0 < n \<Longrightarrow> last (logspace a b n) = 10 powr (a + real (n - 1) * ((b - a) / real (n - 1)))"
  unfolding logspace_def linspace_def by (simp add: last_map)

lemma ten_powr_18: "(10::real) powr 18 = 10 ^ 18"
  using powr_realpow [of "10::real" 18] by simp

lemma mass_grid_bounds:
  assumes "m \<in> set (logspace 0 18 512)"
  shows "1 \<le> m" and "m \<le> 10 ^ 18"
proof -
  from logspace_mem [OF assms] obtain i where i: "i < 512"
    and m: "m = 10 powr (real i * (18 / 511))"
    by auto
  have "0 \<le> real i * (18 / 511)" by simp
  then have "(10::real) powr 0 \<le> 10 powr (real i * (18 / 511))"
    by (intro powr_mono) simp_all
  with m show "1 \<le> m" by simp
  have "real i \<le> 511" using i by simp
  then have "real i * (18 / 511) \<le> 18" by simp
  then have "(10::real) powr (real i * (18 / 511)) \<le> 10 powr 18"
    by (intro powr_mono) simp_all
  then show "m \<le> 10 ^ 18" using m ten_powr_18 by simp
qed

lemma mass_grid_first: "logspace 0 18 512 ! 0 = 1"
  using logspace_nth [of 0 512 0 18] by simp

lemma mass_grid_last: "last (logspace 0 18 512) = 10 ^ 18"
  using logspace_last [of 512 0 18] ten_powr_18 by simp

lemma interp1d_in_range:
  "amin xs \<le> x \<Longrightarrow> x \<le> amax xs \<Longrightarrow> interp1d ext xs ys x = Some (interp1d_cubic ext xs ys x)"
  by (simp add: interp1d_def)

lemma sig_int_in_range:
  assumes lo: "amin m_ext \<le> 1 / 1000" and hi: "10 ^ 19 \<le> amax m_ext"
  shows "\<exists>s_fmz. emap (\<lambda>m. uncaught (interp1d ext m_ext sig_ext m))
           (map (\<lambda>m. 0.01 * m) (logspace 0 18 512)) = Inr s_fmz"
proof -
  let ?mass = "logspace 0 18 512"
  have "\<exists>y. uncaught (interp1d ext m_ext sig_ext m) = Inr y"
    if "m \<in> set (map (\<lambda>m. 0.01 * m) ?mass)" for m
  proof -
    from that obtain m0 where m0: "m0 \<in> set ?mass" and m: "m = 0.01 * m0" by auto
    from mass_grid_bounds [OF m0] m have "1 / 1000 \<le> m" and "m \<le> 10 ^ 19" by simp_all
    with lo hi have "amin m_ext \<le> m" and "m \<le> amax m_ext" by linarith+
    then show ?thesis by (simp add: interp1d_in_range uncaught_def)
  qed
  then show ?thesis
    by (rule emap_ex_Inr)
qed

lemma z_form_row_succeeds:
  assumes "extrapolation_covers ext"
  shows "\<exists>row. z_form_row ext cosmology (logspace 0 18 512) sig2_iz deltac_iz z_iz = Inr row"
proof -
  let ?mass = "logspace 0 18 512"
  let ?lo = "1 / 10 * 0.01 * ?mass ! 0" and ?hi = "10 * last ?mass"
  let ?e = "extrapolate_log ext ?mass (map sqrt sig2_iz) ?lo ?hi"
  obtain m_ext sig_ext where e: "?e = (m_ext, sig_ext)" by (cases ?e)
  from assms have "amin (fst ?e) \<le> ?lo" and "?hi \<le> amax (fst ?e)"
    unfolding extrapolation_covers_def by blast+
  then have "amin m_ext \<le> ?lo" and "?hi \<le> amax m_ext"
    unfolding e by simp_all
  moreover have "?lo = 1 / 1000" unfolding mass_grid_first by simp
  moreover have "?hi = 10 ^ 19" unfolding mass_grid_last by simp
  ultimately have lo: "amin m_ext \<le> 1 / 1000" and hi: "10 ^ 19 \<le> amax m_ext"
    by simp_all
  from sig_int_in_range [OF lo hi] obtain s_fmz where s:
    "emap (\<lambda>m. uncaught (interp1d ext m_ext sig_ext m)) (map (\<lambda>m. 0.01 * m) ?mass) = Inr s_fmz"
    by blast
  show ?thesis
    unfolding z_form_row_def Let_def e prod.case s ebind_Inr by blast
qed

lemma z_form_succeeds:
  assumes "extrapolation_covers ext"
  shows "\<exists>zf. z_form ext cosmology z (logspace 0 18 512) sig2 deltac = Inr zf"
  unfolding z_form_def by (rule emap_ex_Inr) (rule z_form_row_succeeds [OF assms])


lemma compute_sigma_8_succeeds:
  assumes "100 < length k" and "10 \<le> amax k" and "amin k \<le> 0.001"
  shows "compute_sigma_8 ext k pk
       = Inr (let integral = simps ext
                (map2 (\<lambda>kk p. kk ^ 3 * p / (2 * pi\<^sup>2) * (cosmo_TopHat_window (kk * 8))\<^sup>2) k pk)
                (map ln k)
              in if integral < 0 then None else Some (sqrt integral))"
proof -
  have "pi / 8 * 2 \<le> amax k" using pi_less_4 assms(2) by simp
  moreover have "k \<noteq> []" using assms(1) by auto
  moreover have "100 \<le> length k" using assms(1) by simp
  ultimately show ?thesis
    using assms(3) unfolding compute_sigma_8_def Let_def by simp
qed

lemma log_step_succeeds: "2 \<le> length kappa \<Longrightarrow> \<exists>v. log_step kappa = Inr v"
  by (simp add: log_step_def)

lemma sigma2_succeeds:
  assumes "extrapolation_covers ext"
  shows "\<exists>v. sigma2 ext rr k pk = Inr v"
proof -
  let ?e = "extrapolate_log ext k pk (1 / 10 ^ 6) (10 ^ 8)"
  obtain kappa P_kappa where e: "?e = (kappa, P_kappa)" by (cases ?e)
  from assms have "2 \<le> length (fst ?e)"
    unfolding extrapolation_covers_def by blast
  then have "2 \<le> length kappa" unfolding e by simp
  from log_step_succeeds [OF this] obtain dlnk where d: "log_step kappa = Inr dlnk" by blast
  show ?thesis
    unfolding sigma2_def Let_def e prod.case d ebind_Inr by blast
qed

lemma sigma_d_succeeds:
  assumes "extrapolation_covers ext"
  shows "\<exists>v. sigma_d ext k pk nz R = Inr v"
proof -
  have "\<exists>y. (let (k_ext, pk_ext) = extrapolate_log ext k (pk ! i) (1 / 10 ^ 6) (10 ^ 8) in
              ebind (log_step k_ext) (\<lambda>dlnk.
                Inr (trapz_dx
                  (map2 (\<lambda>kk p. 1 / 3 * kk ^ 3 * p / (2 * pi\<^sup>2) / kk\<^sup>2 * (TopHat_window ext (kk * R))\<^sup>2)
                     k_ext pk_ext) dlnk))) = Inr y" for i
  proof -
    let ?e = "extrapolate_log ext k (pk ! i) (1 / 10 ^ 6) (10 ^ 8)"
    obtain k_ext pk_ext where e: "?e = (k_ext, pk_ext)" by (cases ?e)
    from assms have "2 \<le> length (fst ?e)"
      unfolding extrapolation_covers_def by blast
    then have "2 \<le> length k_ext" unfolding e by simp
    from log_step_succeeds [OF this] obtain dlnk where d: "log_step k_ext = Inr dlnk" by blast
    show ?thesis
      unfolding Let_def e prod.case d ebind_Inr by blast
  qed
  then obtain integral where "emap (\<lambda>i.
        let (k_ext, pk_ext) = extrapolate_log ext k (pk ! i) (1 / 10 ^ 6) (10 ^ 8) in
        ebind (log_step k_ext) (\<lambda>dlnk.
          Inr (trapz_dx
                (map2 (\<lambda>kk p. 1 / 3 * kk ^ 3 * p / (2 * pi\<^sup>2) / kk\<^sup>2 * (TopHat_window ext (kk * R))\<^sup>2)
                   k_ext pk_ext) dlnk))) [0..<nz] = Inr integral"
    using emap_ex_Inr [of "[0..<nz]"] by meson
  then show ?thesis
    unfolding sigma_d_def by simp
qed

lemma compute_nonlinear_pk_succeeds:
  assumes k: "100 < length (self_k s)" "10 \<le> amax (self_k s)" "amin (self_k s) \<le> 0.001"
    and ext: "extrapolation_covers ext"
    and mass: "self_mass s = logspace 0 18 512"
  shows "\<exists>HO. compute_nonlinear_pk ext cosmology s = Inr HO"
proof -
  let ?rr = "map (radius_of_mass (self_rho_field s)) (self_mass s)"
  let ?nz = "length (self_z s)"
  have "\<exists>y. ebind (compute_sigma_8 ext (self_k s) (self_pk s ! i)) (\<lambda>s8.
               ebind (sigma2 ext ?rr (self_k s) (self_pk s ! i)) (\<lambda>s2. Inr (s8, s2))) = Inr y" for i
  proof -
    note a = compute_sigma_8_succeeds [OF k, of ext "self_pk s ! i"]
    from sigma2_succeeds [OF ext] obtain s2
      where b: "sigma2 ext ?rr (self_k s) (self_pk s ! i) = Inr s2" by blast
    show ?thesis unfolding a b ebind_Inr by blast
  qed
  then obtain sig where sig: "emap (\<lambda>i.
               ebind (compute_sigma_8 ext (self_k s) (self_pk s ! i)) (\<lambda>s8.
               ebind (sigma2 ext ?rr (self_k s) (self_pk s ! i)) (\<lambda>s2. Inr (s8, s2)))) [0..<?nz] = Inr sig"
    using emap_ex_Inr [of "[0..<?nz]"] by meson
  from sigma_d_succeeds [OF ext] obtain sigd100
    where sigd100: "sigma_d ext (self_k s) (self_pk s) ?nz 100 = Inr sigd100" by blast
  from sigma_d_succeeds [OF ext] obtain sigd
    where sigd: "sigma_d ext (self_k s) (self_pk s) ?nz (1 / 10 ^ 3) = Inr sigd" by blast
  let ?sig2 = "map snd sig"
  let ?deltac = "deltac_table cosmology (map fst sig)
       (map (\<lambda>om. om * Omega_cb cosmology / Omega_m cosmology) (map (Omega_m_z cosmology) (self_z s)))"
  from z_form_succeeds [OF ext] obtain zf
    where zf: "z_form ext cosmology (self_z s) (self_mass s) ?sig2 ?deltac = Inr zf"
    unfolding mass by blast
  show ?thesis
    unfolding compute_nonlinear_pk_def Let_def sig sigd100 sigd zf ebind_Inr
    by (rule exI) (rule refl)
qed

lemma bao_smearing_off: "bao_smearing cosmology k pk nz False = Inr (pk, pk)"
  by (simp add: bao_smearing_def)

lemma remove_bao_rows:
  assumes "nz \<le> length pk"
    and "\<And>i. i < nz \<Longrightarrow> length (pk ! i) = length k \<and> remove_bao cosmology k (pk ! i) \<noteq> None"
  shows "emap (\<lambda>i. ebind (getrow pk i) (remove_bao_call cosmology k)) [0..<nz]
       = Inr (map (\<lambda>i. the (remove_bao cosmology k (pk ! i))) [0..<nz])"
proof (intro emap_all_Inr)
  fix x
  assume "x \<in> set [0..<nz]"
  then have x: "x < nz" by simp
  from assms(2) [OF x] obtain r where "remove_bao cosmology k (pk ! x) = Some r"
    and "length (pk ! x) = length k" by auto
  with x assms(1)
  show "ebind (getrow pk x) (remove_bao_call cosmology k) = Inr (the (remove_bao cosmology k (pk ! x)))"
    by (simp add: getrow_def remove_bao_call_def)
qed

lemma bao_smearing_succeeds:
  assumes "BAO_smearing \<Longrightarrow> nz \<le> length pk
      \<and> (\<forall>i<nz. length (pk ! i) = length k \<and> remove_bao cosmology k (pk ! i) \<noteq> None)"
  shows "\<exists>t. bao_smearing cosmology k pk nz BAO_smearing = Inr t"
proof (cases BAO_smearing)
  case False
  then show ?thesis by (simp add: bao_smearing_def)
next
  case True
  with assms have "nz \<le> length pk"
    and "\<And>i. i < nz \<Longrightarrow> length (pk ! i) = length k \<and> remove_bao cosmology k (pk ! i) \<noteq> None"
    by simp_all
  from remove_bao_rows [OF this] True show ?thesis
    by (simp add: bao_smearing_def Let_def)
qed

lemma shape_is_rows:
  assumes "shape_is pk nz nk"
  shows "nz \<le> length pk \<and> (\<forall>i<nz. length (pk ! i) = nk)"
  using assms by (auto simp: shape_is_def list_all_length)

lemma bao_smearing_well_shaped:
  assumes "shape_is pk nz (length k)"
    and "BAO_smearing \<Longrightarrow> \<forall>i<nz. remove_bao cosmology k (pk ! i) \<noteq> None"
  shows "\<exists>t. bao_smearing cosmology k pk nz BAO_smearing = Inr t"
  using shape_is_rows [OF assms(1)] assms(2) by (intro bao_smearing_succeeds) simp

lemma remove_bao_call_not_shape_error: "remove_bao_call cosmology k p \<noteq> Inl shape_error"
  by (simp add: remove_bao_call_def shape_error_def split: option.splits)

lemma getrow_not_shape_error: "getrow pk i \<noteq> Inl shape_error"
  by (simp add: getrow_def shape_error_def)

lemma bao_smearing_not_shape_error:
  "bao_smearing cosmology k pk nz BAO_smearing \<noteq> Inl shape_error"
  by (auto simp: bao_smearing_def Let_def ebind_eq_Inl remove_bao_call_not_shape_error
      getrow_not_shape_error dest!: emap_Inl)

lemma halofit_setup_init_fields:
  assumes "halofit_setup_init z k pk field BAO_smearing cosmology = Inr s"
  shows "self_z s = z" and "self_k s = k" and "self_pk s = pk"
    and "self_mass s = logspace 0 18 512"
    and "100 < length k" and "10 \<le> amax k" and "amin k \<le> 0.001"
    and "shape_is pk (length z) (length k)"
    and "field_density cosmology field = Inr (self_rho_field s)"
    and "bao_smearing cosmology k pk (length z) BAO_smearing = Inr (self_pk_nw s, self_pk_dw s)"
  using assms unfolding halofit_setup_init_def Let_def
  by (auto simp: ebind_eq_Inr k_assertions_def split: if_splits)

lemma halofit_setup_init_succeeds:
  assumes "100 < length k" and "10 \<le> amax k" and "amin k \<le> 0.001"
    and "shape_is pk (length z) (length k)"
    and "field = ''cb'' \<or> field = ''tot''"
    and "BAO_smearing \<Longrightarrow> \<forall>i<length z. remove_bao cosmology k (pk ! i) \<noteq> None"
  shows "\<exists>s. halofit_setup_init z k pk field BAO_smearing cosmology = Inr s"
proof -
  have k: "k_assertions k = Inr ()" using assms(1-3) by (simp add: k_assertions_pass)
  from bao_smearing_well_shaped [OF assms(4,6)] obtain t
    where t: "bao_smearing cosmology k pk (length z) BAO_smearing = Inr t" by blast
  from assms(5) obtain rho where rho: "field_density cosmology field = Inr rho"
    by (auto simp: field_density_def)
  show ?thesis
    unfolding halofit_setup_init_def Let_def k t rho ebind_Inr using assms(4)
    by (cases t) simp
qed

lemma halofit_operator_init_Inr:
  "halofit_operator_init ext z k pk field BAO_smearing cosmology = Inr HO \<longleftrightarrow>
     (\<exists>s. halofit_setup_init z k pk field BAO_smearing cosmology = Inr s
        \<and> compute_nonlinear_pk ext cosmology s = Inr HO)"
  by (simp add: halofit_operator_init_def ebind_eq_Inr)

lemma halofit_operator_init_succeeds:
  assumes "100 < length k" and "10 \<le> amax k" and "amin k \<le> 0.001"
    and "shape_is pk (length z) (length k)"
    and "field = ''cb'' \<or> field = ''tot''"
    and "extrapolation_covers ext"
    and "BAO_smearing \<Longrightarrow> \<forall>i<length z. remove_bao cosmology k (pk ! i) \<noteq> None"
  shows "\<exists>HO. halofit_operator_init ext z k pk field BAO_smearing cosmology = Inr HO"
proof -
  from halofit_setup_init_succeeds [OF assms(1-5,7)] obtain s
    where s: "halofit_setup_init z k pk field BAO_smearing cosmology = Inr s" by blast
  note f = halofit_setup_init_fields [OF s]
  have "\<exists>HO. compute_nonlinear_pk ext cosmology s = Inr HO"
    using assms(1-3,6) f(4) unfolding f(2) [symmetric]
    by (rule compute_nonlinear_pk_succeeds)
  with s show ?thesis by (auto simp: halofit_operator_init_Inr)
qed

lemma extrapolation_covers_example: "extrapolation_covers externals_example"
proof -
  have "amin (lo # x @ [hi]) \<le> lo" and "hi \<le> amax (lo # x @ [hi])" for lo hi :: real and x
    unfolding amin_def amax_def by (intro Min_le Max_ge; simp)+
  then show ?thesis
    by (simp add: extrapolation_covers_def externals_example_def)
qed

lemma shape_flat: "shape_is (flat_spectrum k z) (length z) (length k)"
  by (simp add: shape_is_def flat_spectrum_def list_all_iff)

lemma compute_sigma_8_not_shape_error: "compute_sigma_8 ext k pk \<noteq> Inl shape_error"
  by (simp add: compute_sigma_8_def Let_def shape_error_def)

lemma log_step_not_shape_error: "log_step kappa \<noteq> Inl shape_error"
  by (simp add: log_step_def shape_error_def)

lemma sigma2_not_shape_error: "sigma2 ext rr k pk \<noteq> Inl shape_error"
  by (auto simp: sigma2_def Let_def ebind_eq_Inl log_step_not_shape_error split: prod.splits)

lemma sigma_d_not_shape_error: "sigma_d ext k pk nz R \<noteq> Inl shape_error"
  by (auto simp: sigma_d_def Let_def ebind_eq_Inl log_step_not_shape_error
      split: prod.splits dest!: emap_Inl)

lemma z_form_not_shape_error: "z_form ext cosmology z mass sig2 deltac \<noteq> Inl shape_error"
  by (auto simp: z_form_def z_form_row_def Let_def ebind_eq_Inl uncaught_def shape_error_def
      split: prod.splits option.splits dest!: emap_Inl)

lemma compute_nonlinear_pk_not_shape_error:
  "compute_nonlinear_pk ext cosmology s \<noteq> Inl shape_error"
  unfolding compute_nonlinear_pk_def Let_def
  by (auto simp: ebind_eq_Inl compute_sigma_8_not_shape_error sigma2_not_shape_error
        sigma_d_not_shape_error z_form_not_shape_error dest!: emap_Inl)


lemma nonlinear_pk_init_k_fail:
  "k_assertions k = Inl e \<Longrightarrow> nonlinear_pk_init ext z k code BAO_smearing cosmology = Inl e"
  by (simp add: nonlinear_pk_init_def)

lemma halofit_operator_init_k_fail:
  "k_assertions k = Inl e \<Longrightarrow> halofit_operator_init ext z k pk field BAO_smearing cosmology = Inl e"
  by (simp add: halofit_operator_init_def halofit_setup_init_def)

lemma halofit_setup_init_shape_error:
  assumes "100 < length k" and "10 \<le> amax k" and "amin k \<le> 0.001"
    and "\<exists>t. bao_smearing cosmology k pk (length z) BAO_smearing = Inr t"
    and "\<not> shape_is pk (length z) (length k)"
  shows "halofit_setup_init z k pk field BAO_smearing cosmology = Inl shape_error"
proof -
  have k: "k_assertions k = Inr ()" using assms(1-3) by (simp add: k_assertions_pass)
  from assms(4) obtain t
    where t: "bao_smearing cosmology k pk (length z) BAO_smearing = Inr t" by blast
  show ?thesis
    unfolding halofit_setup_init_def Let_def k t ebind_Inr using assms(5)
    by (cases t) simp
qed

lemma halofit_setup_init_well_shaped:
  assumes "shape_is pk (length z) (length k)"
  shows "halofit_setup_init z k pk field BAO_smearing cosmology \<noteq> Inl shape_error"
proof -
  have "k_assertions k \<noteq> Inl shape_error"
    by (simp add: k_assertions_def shape_error_def)
  moreover have "field_density cosmology field \<noteq> Inl shape_error"
    by (simp add: field_density_def shape_error_def field_error_def)
  ultimately show ?thesis
    unfolding halofit_setup_init_def Let_def using assms bao_smearing_not_shape_error
    by (auto simp: ebind_eq_Inl split: prod.splits)
qed

lemma flat_spectrum_rows: "length (flat_spectrum k z) = length z"
  by (simp add: flat_spectrum_def)

lemma field_density_unknown:
  "field \<noteq> ''cb'' \<Longrightarrow> field \<noteq> ''tot'' \<Longrightarrow> field_density cosmology field = Inl field_error"
  by (simp add: field_density_def field_error_def)

lemma halofit_setup_init_unknown_field:
  assumes "field \<noteq> ''cb''" and "field \<noteq> ''tot''"
  shows "\<exists>e. halofit_setup_init z k pk field BAO_smearing cosmology = Inl e"
    and "100 < length k \<Longrightarrow> 10 \<le> amax k \<Longrightarrow> amin k \<le> 0.001
      \<Longrightarrow> \<exists>t. bao_smearing cosmology k pk (length z) BAO_smearing = Inr t
      \<Longrightarrow> shape_is pk (length z) (length k)
      \<Longrightarrow> halofit_setup_init z k pk field BAO_smearing cosmology = Inl field_error"
proof -
  note fd = field_density_unknown [OF assms]
  show "\<exists>e. halofit_setup_init z k pk field BAO_smearing cosmology = Inl e"
    unfolding halofit_setup_init_def Let_def
    by (cases "k_assertions k"; cases "bao_smearing cosmology k pk (length z) BAO_smearing")
      (auto simp: fd split: prod.splits)
  assume a: "100 < length k" "10 \<le> amax k" "amin k \<le> 0.001"
    "\<exists>t. bao_smearing cosmology k pk (length z) BAO_smearing = Inr t"
    "shape_is pk (length z) (length k)"
  have k: "k_assertions k = Inr ()" using a(1-3) by (simp add: k_assertions_pass)
  from a(4) obtain t
    where t: "bao_smearing cosmology k pk (length z) BAO_smearing = Inr t" by blast
  show "halofit_setup_init z k pk field BAO_smearing cosmology = Inl field_error"
    unfolding halofit_setup_init_def Let_def k t fd ebind_Inr using a(5)
    by (cases t) simp
qed

lemma remove_bao_example: "remove_bao cosmo_example k p \<noteq> None"
  by (simp add: cosmo_example_def)

lemma remove_bao_example_length:
  "BAO_smearing \<longrightarrow>
     (\<forall>p r. length p = length k \<and> remove_bao cosmo_example k p = Some r \<longrightarrow> length r = length k)"
  by (auto simp: cosmo_example_def)

lemma halofit_example_succeeds:
  "field = ''cb'' \<or> field = ''tot'' \<Longrightarrow>
     \<exists>HO. halofit_operator_init externals_example [0] k_grid (flat_spectrum k_grid [0]) field
            BAO_smearing cosmo_example = Inr HO"
proof (rule halofit_operator_init_succeeds)
  show "shape_is (flat_spectrum k_grid [0]) (length [0::real]) (length k_grid)"
    by (rule shape_flat)
qed (simp_all add: length_k_grid amax_k_grid amin_k_grid [simplified] extrapolation_covers_example
    remove_bao_example)

lemma pk_1h_table_nth:
  assumes "iz < nz" and "ik < length k"
  shows "pk_1h_table mass rho_field k k_star hmf u nz ! iz ! ik
     = map_option (\<lambda>v. v * one_halo_damping (k ! ik) (k_star ! iz))
         (one_halo_integral mass rho_field (hmf ! iz) (map (\<lambda>j. u ! iz ! j ! ik) [0..<length mass]))"
  using assms by (simp add: pk_1h_table_def)

lemma pk_1h_table_length:
  "length (pk_1h_table mass rho_field k k_star hmf u nz) = nz"
  "iz < nz \<Longrightarrow> length (pk_1h_table mass rho_field k k_star hmf u nz ! iz) = length k"
  by (simp_all add: pk_1h_table_def)

lemma one_halo_damping_alt:
  "one_halo_damping kk ks = (1 - exp (- 2 * kk / ks)) ^ 3"
proof -
  have "(exp (- kk / ks))\<^sup>2 = exp (- 2 * kk / ks)"
    by (simp add: exp_double [symmetric] power2_eq_square mult_exp_exp)
  then show ?thesis by (simp add: one_halo_damping_def)
qed

lemma length_de_wiggle:
  "length pk_i = length k \<Longrightarrow> length pk_nw_i = length k \<Longrightarrow> length (de_wiggle k pk_i pk_nw_i sv2_i) = length k"
  by (simp add: de_wiggle_def)

lemma bao_smearing_shape:
  assumes "shape_is pk nz (length k)"
    and "BAO_smearing \<longrightarrow>
           (\<forall>p r. length p = length k \<and> remove_bao cosmology k p = Some r \<longrightarrow> length r = length k)"
    and "bao_smearing cosmology k pk nz BAO_smearing = Inr (pk_nw, pk_dw)"
  shows "shape_is pk_dw nz (length k)"
proof (cases BAO_smearing)
  case False
  with assms(3) have "pk_dw = pk" by (auto simp: bao_smearing_def)
  with assms(1) show ?thesis by simp
next
  case True
  from shape_is_rows [OF assms(1)]
  have len: "nz \<le> length pk" and rows: "\<And>i. i < nz \<Longrightarrow> length (pk ! i) = length k"
    by simp_all
  from True assms(2)
  have rb: "\<And>p r. length p = length k \<Longrightarrow> remove_bao cosmology k p = Some r \<Longrightarrow> length r = length k"
    by blast
  let ?sv2 = "map (\<lambda>i. 1 / (6 * pi\<^sup>2) * trapz (map2 (*) k (pk ! i)) (map ln k)) [0..<nz]"
  from assms(3) True
  have "ebind (emap (\<lambda>i. ebind (getrow pk i) (remove_bao_call cosmology k)) [0..<nz])
          (\<lambda>nw. Inr (nw, map (\<lambda>i. de_wiggle k (pk ! i) (nw ! i) (?sv2 ! i)) [0..<nz]))
        = Inr (pk_nw, pk_dw)"
    by (simp add: bao_smearing_def Let_def)
  then obtain nw where
    nw: "emap (\<lambda>i. ebind (getrow pk i) (remove_bao_call cosmology k)) [0..<nz] = Inr nw"
    and "(Inr (nw, map (\<lambda>i. de_wiggle k (pk ! i) (nw ! i) (?sv2 ! i)) [0..<nz]) :: error + mat \<times> mat)
        = Inr (pk_nw, pk_dw)"
    unfolding ebind_eq_Inr by (elim exE conjE)
  then have dw: "pk_dw = map (\<lambda>i. de_wiggle k (pk ! i) (nw ! i) (?sv2 ! i)) [0..<nz]"
    by auto
  have "length (nw ! i) = length k" if "i < nz" for i
  proof -
    from emap_Inr_nth [OF nw, of i] that
    have "ebind (getrow pk i) (remove_bao_call cosmology k) = Inr (nw ! i)" by simp
    with that len have "remove_bao_call cosmology k (pk ! i) = Inr (nw ! i)"
      by (simp add: getrow_def)
    then have "remove_bao cosmology k (pk ! i) = Some (nw ! i)"
      by (simp add: remove_bao_call_def split: if_splits option.splits)
    with rows [OF that] show ?thesis by (rule rb)
  qed
  then have "length (de_wiggle k (pk ! i) (nw ! i) (?sv2 ! i)) = length k" if "i < nz" for i
    using that rows by (intro length_de_wiggle) simp_all
  then show ?thesis
    unfolding dw shape_is_def by (simp add: list_all_iff)
qed

lemma halofit_pk_dw_shape:
  assumes "halofit_operator_init ext z k pk field BAO_smearing cosmology = Inr HO"
    and "BAO_smearing \<longrightarrow>
           (\<forall>p r. length p = length k \<and> remove_bao cosmology k p = Some r \<longrightarrow> length r = length k)"
  shows "shape_is (self_pk_dw HO) (length z) (length k)"
proof -
  from assms(1) obtain s where s: "halofit_setup_init z k pk field BAO_smearing cosmology = Inr s"
    and c: "compute_nonlinear_pk ext cosmology s = Inr HO"
    by (auto simp: halofit_operator_init_Inr)
  note f = halofit_setup_init_fields [OF s] and g = compute_nonlinear_pk_fields [OF c]
  from bao_smearing_shape [OF f(8) assms(2) f(10)] g(5) show ?thesis by simp
qed

lemma pk_2h_table_nth:
  assumes "iz < nz" and "ik < length (pk_dw ! iz)" and "ik < length (tanh2 ! iz)"
  shows "pk_2h_table pk_dw fdamp tanh2 nz ! iz ! ik
     = two_halo (pk_dw ! iz ! ik) (fdamp ! iz) (tanh2 ! iz ! ik)"
  using assms by (simp add: pk_2h_table_def)

lemma pk_2h_table_length:
  "length (pk_2h_table pk_dw fdamp tanh2 nz) = nz"
  "iz < nz \<Longrightarrow> length (pk_2h_table pk_dw fdamp tanh2 nz ! iz)
      = min (length (pk_dw ! iz)) (length (tanh2 ! iz))"
  by (simp_all add: pk_2h_table_def)

lemma tanh2_table_length:
  "length (tanh2_table k sigd fdamp nz) = nz"
  "iz < nz \<Longrightarrow> length (tanh2_table k sigd fdamp nz ! iz) = length k"
  by (simp_all add: tanh2_table_def)

lemma pk_nl_table_nth:
  assumes "iz < nz" and "ik < length (pk_1h ! iz)" and "ik < length (pk_2h ! iz)"
  shows "pk_nl_table alpha pk_1h pk_2h nz ! iz ! ik
     = map_option (\<lambda>v. blend (alpha ! iz) v (pk_2h ! iz ! ik)) (pk_1h ! iz ! ik)"
  using assms by (simp add: pk_nl_table_def)

lemma pk_nl_table_length:
  "length (pk_nl_table alpha pk_1h pk_2h nz) = nz"
  "iz < nz \<Longrightarrow> length (pk_nl_table alpha pk_1h pk_2h nz ! iz)
      = min (length (pk_1h ! iz)) (length (pk_2h ! iz))"
  by (simp_all add: pk_nl_table_def)

lemma halofit_table_shapes:
  assumes "halofit_operator_init ext z k pk field BAO_smearing cosmology = Inr HO"
    and "BAO_smearing \<longrightarrow>
           (\<forall>p r. length p = length k \<and> remove_bao cosmology k p = Some r \<longrightarrow> length r = length k)"
  shows "length (self_pk_1h HO) = length z" and "length (self_pk_2h HO) = length z"
    and "length (self_pk_nl HO) = length z"
    and "iz < length z \<Longrightarrow> length (self_pk_1h HO ! iz) = length k"
    and "iz < length z \<Longrightarrow> length (self_pk_2h HO ! iz) = length k"
    and "iz < length z \<Longrightarrow> length (self_pk_nl HO ! iz) = length k"
proof -
  from assms(1) obtain s where s: "halofit_setup_init z k pk field BAO_smearing cosmology = Inr s"
    and c: "compute_nonlinear_pk ext cosmology s = Inr HO"
    by (auto simp: halofit_operator_init_Inr)
  note f = halofit_setup_init_fields [OF s] and g = compute_nonlinear_pk_fields [OF c]
  have z: "self_z HO = z" and k: "self_k HO = k" using f g by simp_all
  from halofit_pk_dw_shape [OF assms] have dw: "\<And>i. i < length z \<Longrightarrow> length (self_pk_dw HO ! i) = length k"
    by (auto simp: shape_is_def list_all_length)
  show 1: "length (self_pk_1h HO) = length z" and 2: "length (self_pk_2h HO) = length z"
    and "length (self_pk_nl HO) = length z"
    unfolding g(13,14,15) z by (simp_all add: pk_1h_table_length pk_2h_table_length pk_nl_table_length)
  show 4: "length (self_pk_1h HO ! iz) = length k" if "iz < length z"
    unfolding g(13) z k using that by (simp add: pk_1h_table_length)
  show 5: "length (self_pk_2h HO ! iz) = length k" if "iz < length z"
    unfolding g(14) z k using that dw by (simp add: pk_2h_table_length tanh2_table_length)
  show "length (self_pk_nl HO ! iz) = length k" if "iz < length z"
    unfolding g(15) z using that 4 5 by (simp add: pk_nl_table_length)
qed

lemma alp_pos: "0 < alp neff"
  by (simp add: alp_def)

lemma n_eff_table_nth:
  "iz < length z \<Longrightarrow>
     n_eff_table ext mass sig2 deltac z ! iz = n_eff_at ext mass (sig2 ! iz) (deltac ! iz) (z ! iz)"
  by (simp add: n_eff_table_def)









lemma total_matter_table_nth:
  assumes "iz < length pk_nl_cbcb" and "iz < length pk_cbnu" and "iz < length pk_nunu"
    and "ik < length (pk_nl_cbcb ! iz)" and "ik < length (pk_cbnu ! iz)"
    and "ik < length (pk_nunu ! iz)"
  shows "total_matter_table cosmology pk_nl_cbcb pk_cbnu pk_nunu ! iz ! ik
     = map_option (\<lambda>v. total_matter cosmology v (pk_cbnu ! iz ! ik) (pk_nunu ! iz ! ik))
         (pk_nl_cbcb ! iz ! ik)"
  using assms by (simp add: total_matter_table_def)

lemma nonlinear_pk_init_Inr:
  assumes "nonlinear_pk_init ext z k code BAO_smearing cosmology = Inr P"
  shows "\<exists>HO.
      linear_spectra cosmology code k z = Inr (nl_pk_cbcb P, nl_pk_cbnu P, nl_pk_nunu P)
    \<and> halofit_operator_init ext z k (nl_pk_cbcb P) ''cb'' BAO_smearing cosmology = Inr HO
    \<and> nl_pk_nl_cbcb P = self_pk_nl HO
    \<and> nl_pk_nl P = total_matter_table cosmology (self_pk_nl HO) (nl_pk_cbnu P) (nl_pk_nunu P)"
proof -
  from assms obtain u where k: "k_assertions k = Inr u" 
    unfolding nonlinear_pk_init_def ebind_eq_Inr by blast
  from assms obtain l where l: "linear_spectra cosmology code k z = Inr l"
    and 1: "(case l of (pk_cbcb, pk_cbnu, pk_nunu) \<Rightarrow>
     ebind (bao_smearing cosmology k pk_cbcb (length z) BAO_smearing) (\<lambda>(pk_nw, pk_dw).
     ebind (halofit_operator_init ext z k pk_cbcb ''cb'' BAO_smearing cosmology) (\<lambda>HO.
       Inr \<lparr> nl_z = z, nl_k = k, nl_pk_cbcb = pk_cbcb, nl_pk_cbnu = pk_cbnu,
             nl_pk_nunu = pk_nunu, nl_pk_nw = pk_nw, nl_pk_dw = pk_dw,
             nl_pk_nl_cbcb = self_pk_nl HO, nl_pk_nw_cbcb = self_pk_nw HO,
             nl_pk_dw_cbcb = self_pk_dw HO,
             nl_pk_nl = total_matter_table cosmology (self_pk_nl HO) pk_cbnu pk_nunu \<rparr>))) = Inr P"
    unfolding nonlinear_pk_init_def k ebind_Inr ebind_eq_Inr by blast
  obtain pk_cbcb pk_cbnu pk_nunu where lt: "l = (pk_cbcb, pk_cbnu, pk_nunu)" by (cases l)
  from 1 obtain t where t: "bao_smearing cosmology k pk_cbcb (length z) BAO_smearing = Inr t"
    and 2: "(case t of (pk_nw, pk_dw) \<Rightarrow>
     ebind (halofit_operator_init ext z k pk_cbcb ''cb'' BAO_smearing cosmology) (\<lambda>HO.
       Inr \<lparr> nl_z = z, nl_k = k, nl_pk_cbcb = pk_cbcb, nl_pk_cbnu = pk_cbnu,
             nl_pk_nunu = pk_nunu, nl_pk_nw = pk_nw, nl_pk_dw = pk_dw,
             nl_pk_nl_cbcb = self_pk_nl HO, nl_pk_nw_cbcb = self_pk_nw HO,
             nl_pk_dw_cbcb = self_pk_dw HO,
             nl_pk_nl = total_matter_table cosmology (self_pk_nl HO) pk_cbnu pk_nunu \<rparr>)) = Inr P"
    unfolding lt prod.case ebind_eq_Inr by blast
  obtain pk_nw pk_dw where tt: "t = (pk_nw, pk_dw)" by (cases t)
  from 2 obtain HO where h: "halofit_operator_init ext z k pk_cbcb ''cb'' BAO_smearing cosmology = Inr HO"
    and P: "P = \<lparr> nl_z = z, nl_k = k, nl_pk_cbcb = pk_cbcb, nl_pk_cbnu = pk_cbnu,
             nl_pk_nunu = pk_nunu, nl_pk_nw = pk_nw, nl_pk_dw = pk_dw,
             nl_pk_nl_cbcb = self_pk_nl HO, nl_pk_nw_cbcb = self_pk_nw HO,
             nl_pk_dw_cbcb = self_pk_dw HO,
             nl_pk_nl = total_matter_table cosmology (self_pk_nl HO) pk_cbnu pk_nunu \<rparr>"
    unfolding tt prod.case ebind_eq_Inr by (elim exE conjE) (simp only: sum.inject)
  show ?thesis
    by (rule exI [of _ HO]) (simp add: P l lt h)
qed

lemma linear_spectra_example:
  "linear_spectra cosmo_example ''camb'' k z
      = Inr (flat_spectrum k z, flat_spectrum k z, flat_spectrum k z)"
  by (simp add: linear_spectra_def cosmo_example_def)

lemma halofit_example_succeeds_z:
  "\<exists>HO. halofit_operator_init externals_example z k_grid (flat_spectrum k_grid z) ''cb''
      BAO_smearing cosmo_example = Inr HO"
proof (rule halofit_operator_init_succeeds)
  show "shape_is (flat_spectrum k_grid z) (length z) (length k_grid)" by (rule shape_flat)
qed (simp_all add: length_k_grid amax_k_grid amin_k_grid [simplified] extrapolation_covers_example
    remove_bao_example)

lemma nonlinear_pk_example_succeeds:
  "\<exists>P. nonlinear_pk_init externals_example z k_grid ''camb'' BAO_smearing cosmo_example = Inr P"
proof -
  have k: "k_assertions k_grid = Inr ()"
    using amax_k_grid amin_k_grid by (simp add: k_assertions_pass length_k_grid)
  have "\<exists>t. bao_smearing cosmo_example k_grid (flat_spectrum k_grid z) (length z) BAO_smearing
      = Inr t"
    by (rule bao_smearing_well_shaped [OF shape_flat]) (simp add: remove_bao_example)
  then obtain t where
    t: "bao_smearing cosmo_example k_grid (flat_spectrum k_grid z) (length z) BAO_smearing = Inr t"
    by blast
  obtain pk_nw pk_dw where tt: "t = (pk_nw, pk_dw)" by (cases t)
  from halofit_example_succeeds_z obtain HO where
    h: "halofit_operator_init externals_example z k_grid (flat_spectrum k_grid z)
      ''cb'' BAO_smearing cosmo_example = Inr HO" ..
  show ?thesis
    unfolding nonlinear_pk_init_def k linear_spectra_example t tt h ebind_Inr prod.case
    by (rule exI) (rule refl)
qed

lemma compute_nonlinear_pk_sigma_fields:
  assumes "compute_nonlinear_pk ext cosmology s = Inr HO"
  shows "length (self_sig8 HO) = length (self_z s)"
    and "length (self_sig2 HO) = length (self_z s)"
    and "i < length (self_z s) \<Longrightarrow>
           compute_sigma_8 ext (self_k s) (self_pk s ! i) = Inr (self_sig8 HO ! i)"
    and "i < length (self_z s) \<Longrightarrow>
           sigma2 ext (map (radius_of_mass (self_rho_field s)) (self_mass s)) (self_k s)
             (self_pk s ! i) = Inr (self_sig2 HO ! i)"
proof -
  let ?f = "\<lambda>i. ebind (compute_sigma_8 ext (self_k s) (self_pk s ! i)) (\<lambda>s8.
               ebind (sigma2 ext (map (radius_of_mass (self_rho_field s)) (self_mass s))
                        (self_k s) (self_pk s ! i)) (\<lambda>s2. Inr (s8, s2)))"
  from assms obtain sig where sig: "emap ?f [0..<length (self_z s)] = Inr sig"
    and s8: "self_sig8 HO = map fst sig" and s2: "self_sig2 HO = map snd sig"
    unfolding compute_nonlinear_pk_def Let_def
    by (auto simp: ebind_eq_Inr)
  from emap_Inr_length [OF sig] show "length (self_sig8 HO) = length (self_z s)"
    and "length (self_sig2 HO) = length (self_z s)"
    by (simp_all add: s8 s2)
  have *: "compute_sigma_8 ext (self_k s) (self_pk s ! i) = Inr (self_sig8 HO ! i)
      \<and> sigma2 ext (map (radius_of_mass (self_rho_field s)) (self_mass s)) (self_k s)
             (self_pk s ! i) = Inr (self_sig2 HO ! i)" if i: "i < length (self_z s)"
  proof -
    from emap_Inr_nth [OF sig, of i] i have "?f i = Inr (sig ! i)" by simp
    then obtain a where a: "compute_sigma_8 ext (self_k s) (self_pk s ! i) = Inr a"
      and "ebind (sigma2 ext (map (radius_of_mass (self_rho_field s)) (self_mass s))
                        (self_k s) (self_pk s ! i)) (\<lambda>s2. Inr (a, s2)) = Inr (sig ! i)"
      unfolding ebind_eq_Inr by blast
    then obtain b where b: "sigma2 ext (map (radius_of_mass (self_rho_field s)) (self_mass s))
                        (self_k s) (self_pk s ! i) = Inr b"
      and ab: "sig ! i = (a, b)"
      unfolding ebind_eq_Inr by auto
    have "self_sig8 HO ! i = fst (sig ! i)" and "self_sig2 HO ! i = snd (sig ! i)"
      using i emap_Inr_length [OF sig] by (simp_all add: s8 s2)
    with a b ab show ?thesis by simp
  qed
  show "compute_sigma_8 ext (self_k s) (self_pk s ! i) = Inr (self_sig8 HO ! i)"
    if "i < length (self_z s)" using * [OF that] by (rule conjunct1)
  show "sigma2 ext (map (radius_of_mass (self_rho_field s)) (self_mass s)) (self_k s)
             (self_pk s ! i) = Inr (self_sig2 HO ! i)"
    if "i < length (self_z s)" using * [OF that] by (rule conjunct2)
qed

lemma deltac_table_nth:
  "i < length sig8 \<Longrightarrow> i < length ocz \<Longrightarrow>
     deltac_table cosmology sig8 ocz ! i = map_option (\<lambda>s. delta_c cosmology s (ocz ! i)) (sig8 ! i)"
  by (simp add: deltac_table_def)











lemma halofit_grid_succeeds:
  assumes "extrapolation_covers ext"
  shows "\<exists>HO. halofit_operator_init ext z k_grid (flat_spectrum k_grid z) ''cb''
      BAO_smearing cosmo_example = Inr HO"
proof (rule halofit_operator_init_succeeds)
  show "shape_is (flat_spectrum k_grid z) (length z) (length k_grid)" by (rule shape_flat)
  show "extrapolation_covers ext" by (rule assms)
qed (simp_all add: length_k_grid amax_k_grid amin_k_grid [simplified] remove_bao_example)


lemma halofit_operator_init_grounded:
  assumes "halofit_operator_init ext z k pk field BAO_smearing cosmology = Inr HO"
  shows "self_z HO = z" and "self_k HO = k" and "self_pk HO = pk"
    and "self_mass HO = logspace 0 18 512"
    and "field_density cosmology field = Inr (self_rho_field HO)"
    and "bao_smearing cosmology k pk (length z) BAO_smearing = Inr (self_pk_nw HO, self_pk_dw HO)"
    and "length (self_sig8 HO) = length z" and "length (self_sig2 HO) = length z"
    and "i < length z \<Longrightarrow> compute_sigma_8 ext k (pk ! i) = Inr (self_sig8 HO ! i)"
    and "i < length z \<Longrightarrow>
           sigma2 ext (map (radius_of_mass (self_rho_field HO)) (self_mass HO)) k (pk ! i)
             = Inr (self_sig2 HO ! i)"
    and "i < length z \<Longrightarrow>
           self_deltac HO ! i
             = map_option (\<lambda>s8. delta_c cosmology s8
                  (Omega_m_z cosmology (z ! i) * Omega_cb cosmology / Omega_m cosmology))
                 (self_sig8 HO ! i)"
    and "sigma_d ext k pk (length z) 100 = Inr (self_sigd100 HO)"
    and "sigma_d ext k pk (length z) (1 / 10 ^ 3) = Inr (self_sigd HO)"
    and "z_form ext cosmology z (self_mass HO) (self_sig2 HO) (self_deltac HO) = Inr (self_zf HO)"
    and "shape_is pk (length z) (length k)"
proof -
  from assms obtain s where s: "halofit_setup_init z k pk field BAO_smearing cosmology = Inr s"
    and c: "compute_nonlinear_pk ext cosmology s = Inr HO"
    by (auto simp: halofit_operator_init_Inr)
  note f = halofit_setup_init_fields [OF s] and g = compute_nonlinear_pk_fields [OF c]
    and h = compute_nonlinear_pk_sigma_fields [OF c]
  show z: "self_z HO = z" and k: "self_k HO = k" and pk: "self_pk HO = pk"
    using f(1-3) g(1-3) by simp_all
  show m: "self_mass HO = logspace 0 18 512" using f(4) g(7) by simp
  show "field_density cosmology field = Inr (self_rho_field HO)" using f(9) g(6) by simp
  show "bao_smearing cosmology k pk (length z) BAO_smearing = Inr (self_pk_nw HO, self_pk_dw HO)"
    using f(10) g(4,5) by simp
  show l8: "length (self_sig8 HO) = length z" and "length (self_sig2 HO) = length z"
    using h(1,2) f(1) by simp_all
  show "shape_is pk (length z) (length k)" by (rule f(8))
  show "sigma_d ext k pk (length z) 100 = Inr (self_sigd100 HO)"
    using g(23) unfolding z k pk .
  show "sigma_d ext k pk (length z) (1 / 10 ^ 3) = Inr (self_sigd HO)"
    using g(24) unfolding z k pk .
  show "z_form ext cosmology z (self_mass HO) (self_sig2 HO) (self_deltac HO) = Inr (self_zf HO)"
    using g(10) unfolding z .
  show "compute_sigma_8 ext k (pk ! i) = Inr (self_sig8 HO ! i)" if "i < length z"
    using h(3) [of i] that by (simp add: f(1-3))
  show "sigma2 ext (map (radius_of_mass (self_rho_field HO)) (self_mass HO)) k (pk ! i)
             = Inr (self_sig2 HO ! i)" if "i < length z"
    using h(4) [of i] that by (simp add: f(1-3) g(6,7))
  show "self_deltac HO ! i
             = map_option (\<lambda>s8. delta_c cosmology s8
                  (Omega_m_z cosmology (z ! i) * Omega_cb cosmology / Omega_m cosmology))
                 (self_sig8 HO ! i)" if "i < length z"
    unfolding g(16) z using that l8 by (simp add: deltac_table_nth)
qed

lemma sigma_d_length: "sigma_d ext k pk nz R = Inr v \<Longrightarrow> length v = nz"
  unfolding sigma_d_def ebind_eq_Inr by (auto dest: emap_Inr_length)

lemma tanh2_table_nth:
  "iz < nz \<Longrightarrow> ik < length k \<Longrightarrow>
     tanh2_table k sigd fdamp nz ! iz ! ik = (tanh (k ! ik * sigd ! iz / sqrt (fdamp ! iz)))\<^sup>2"
  by (simp add: tanh2_table_def)

lemma de_wiggle_same:
  assumes "length p = length k"
  shows "de_wiggle k p p s = p"
  using assms unfolding de_wiggle_def by (intro nth_equalityI) simp_all

lemma bao_smearing_example:
  "bao_smearing cosmo_example k (flat_spectrum k z) (length z) BAO_smearing
     = Inr (flat_spectrum k z, flat_spectrum k z)"
proof (cases BAO_smearing)
  case False
  then show ?thesis by (simp add: bao_smearing_def)
next
  case True
  let ?pk = "flat_spectrum k z"
  have len: "length ?pk = length z" by (simp add: flat_spectrum_def)
  have rows: "length (?pk ! i) = length k" if "i < length z" for i
    using that by (simp add: flat_spectrum_def)
  have "emap (\<lambda>i. ebind (getrow ?pk i) (remove_bao_call cosmo_example k)) [0..<length z]
      = Inr (map (\<lambda>i. the (remove_bao cosmo_example k (?pk ! i))) [0..<length z])"
    by (rule remove_bao_rows) (simp_all add: len rows remove_bao_example)
  moreover have "map (\<lambda>i. the (remove_bao cosmo_example k (?pk ! i))) [0..<length z] = ?pk"
    using len by (intro nth_equalityI) (simp_all add: cosmo_example_def)
  ultimately have nw: "emap (\<lambda>i. ebind (getrow ?pk i) (remove_bao_call cosmo_example k)) [0..<length z]
      = Inr ?pk" by simp
  have "map (\<lambda>i. de_wiggle k (?pk ! i) (?pk ! i) (s i)) [0..<length z] = ?pk" for s
    using len by (intro nth_equalityI) (simp_all add: de_wiggle_same rows)
  with True show ?thesis
    unfolding bao_smearing_def Let_def nw ebind_Inr by simp
qed

lemma Si_coeff_bound: "norm (Si_coeff n * x ^ n) \<le> inverse (fact n) * \<bar>x\<bar> ^ n"
proof (cases "even n")
  case True
  then show ?thesis by (simp add: Si_coeff_def)
next
  case False
  then have n: "1 \<le> real n" by (cases n) auto
  have "norm (Si_coeff n * x ^ n) = \<bar>x\<bar> ^ n / (real n * fact n)"
    using False by (simp add: Si_coeff_def norm_mult norm_divide power_abs abs_mult)
  also have "\<dots> \<le> \<bar>x\<bar> ^ n / (1 * fact n)"
    using n by (intro divide_left_mono mult_right_mono) (simp_all add: mult_pos_pos)
  finally show ?thesis by (simp add: field_simps)
qed

lemma summable_Si: "summable (\<lambda>n. Si_coeff n * x ^ n)"
  by (rule summable_comparison_test' [OF summable_exp [of "\<bar>x\<bar>"], of 0]) (rule Si_coeff_bound)

lemma Cin_coeff_bound: "norm (Cin_coeff n * x ^ n) \<le> inverse (fact n) * \<bar>x\<bar> ^ n"
proof (cases "n = 0 \<or> odd n")
  case True
  then show ?thesis by (auto simp: Cin_coeff_def)
next
  case False
  then have n: "1 \<le> real n" by (cases n) auto
  have "norm (Cin_coeff n * x ^ n) = \<bar>x\<bar> ^ n / (real n * fact n)"
    using False by (simp add: Cin_coeff_def norm_mult norm_divide power_abs abs_mult)
  also have "\<dots> \<le> \<bar>x\<bar> ^ n / (1 * fact n)"
    using n by (intro divide_left_mono mult_right_mono) (simp_all add: mult_pos_pos)
  finally show ?thesis by (simp add: field_simps)
qed

lemma summable_Cin: "summable (\<lambda>n. Cin_coeff n * x ^ n)"
  by (rule summable_comparison_test' [OF summable_exp [of "\<bar>x\<bar>"], of 0]) (rule Cin_coeff_bound)

lemma diffs_Si_coeff: "diffs Si_coeff n = sin_coeff (Suc n)"
  by (simp add: diffs_def Si_coeff_def sin_coeff_def)

lemma diffs_Cin_coeff: "diffs Cin_coeff n = cos_coeff (Suc n)"
  by (simp add: diffs_def Cin_coeff_def cos_coeff_def)

lemma summable_sin_shift: "summable (\<lambda>n. sin_coeff (Suc n) * x ^ n)"
  using termdiff_converges_all [of Si_coeff x, OF summable_Si] by (simp add: diffs_Si_coeff)

lemma summable_cos_shift: "summable (\<lambda>n. cos_coeff (Suc n) * x ^ n)"
  using termdiff_converges_all [of Cin_coeff x, OF summable_Cin] by (simp add: diffs_Cin_coeff)

lemma sin_shift: "x * (\<Sum>n. sin_coeff (Suc n) * x ^ n) = sin x"
proof -
  have s: "summable (\<lambda>n. sin_coeff n * x ^ n)"
    using sin_converges [of x] by (simp add: sums_iff)
  have "(\<Sum>n. sin_coeff (Suc n) * x ^ Suc n) = (\<Sum>n. sin_coeff n * x ^ n) - sin_coeff 0 * x ^ 0"
    by (rule suminf_split_head [OF s])
  also have "(\<Sum>n. sin_coeff n * x ^ n) = sin x"
    using sin_converges [of x] by (simp add: sums_iff)
  finally have "(\<Sum>n. sin_coeff (Suc n) * x ^ Suc n) = sin x"
    by (simp add: sin_coeff_def)
  moreover have "(\<Sum>n. sin_coeff (Suc n) * x ^ Suc n) = x * (\<Sum>n. sin_coeff (Suc n) * x ^ n)"
  proof -
    have "(\<Sum>n. sin_coeff (Suc n) * x ^ Suc n) = (\<Sum>n. x * (sin_coeff (Suc n) * x ^ n))"
      by (simp add: mult_ac)
    also have "\<dots> = x * (\<Sum>n. sin_coeff (Suc n) * x ^ n)"
      by (rule suminf_mult [OF summable_sin_shift])
    finally show ?thesis .
  qed
  ultimately show ?thesis by simp
qed

lemma cos_shift: "x * (\<Sum>n. cos_coeff (Suc n) * x ^ n) = cos x - 1"
proof -
  have s: "summable (\<lambda>n. cos_coeff n * x ^ n)"
    using cos_converges [of x] by (simp add: sums_iff)
  have "(\<Sum>n. cos_coeff (Suc n) * x ^ Suc n) = (\<Sum>n. cos_coeff n * x ^ n) - cos_coeff 0 * x ^ 0"
    by (rule suminf_split_head [OF s])
  also have "(\<Sum>n. cos_coeff n * x ^ n) = cos x"
    using cos_converges [of x] by (simp add: sums_iff)
  finally have "(\<Sum>n. cos_coeff (Suc n) * x ^ Suc n) = cos x - 1"
    by (simp add: cos_coeff_def)
  moreover have "(\<Sum>n. cos_coeff (Suc n) * x ^ Suc n) = x * (\<Sum>n. cos_coeff (Suc n) * x ^ n)"
  proof -
    have "(\<Sum>n. cos_coeff (Suc n) * x ^ Suc n) = (\<Sum>n. x * (cos_coeff (Suc n) * x ^ n))"
      by (simp add: mult_ac)
    also have "\<dots> = x * (\<Sum>n. cos_coeff (Suc n) * x ^ n)"
      by (rule suminf_mult [OF summable_cos_shift])
    finally show ?thesis .
  qed
  ultimately show ?thesis by simp
qed

lemma DERIV_Si: "x \<noteq> 0 \<Longrightarrow> DERIV Si x :> sin x / x"
proof -
  assume x: "x \<noteq> 0"
  have "DERIV (\<lambda>x. \<Sum>n. Si_coeff n * x ^ n) x :> (\<Sum>n. diffs Si_coeff n * x ^ n)"
    by (rule termdiffs_strong_converges_everywhere) (rule summable_Si)
  moreover have "(\<Sum>n. diffs Si_coeff n * x ^ n) = sin x / x"
    using sin_shift [of x] x by (simp add: diffs_Si_coeff field_simps)
  ultimately show ?thesis by (simp add: Si_def [abs_def])
qed

lemma DERIV_Cin: "x \<noteq> 0 \<Longrightarrow> DERIV Cin x :> (cos x - 1) / x"
proof -
  assume x: "x \<noteq> 0"
  have "DERIV (\<lambda>x. \<Sum>n. Cin_coeff n * x ^ n) x :> (\<Sum>n. diffs Cin_coeff n * x ^ n)"
    by (rule termdiffs_strong_converges_everywhere) (rule summable_Cin)
  moreover have "(\<Sum>n. diffs Cin_coeff n * x ^ n) = (cos x - 1) / x"
    using cos_shift [of x] x by (simp add: diffs_Cin_coeff field_simps)
  ultimately show ?thesis by (simp add: Cin_def [abs_def])
qed

lemma isCont_Si: "isCont Si x"
proof -
  have "DERIV (\<lambda>x. \<Sum>n. Si_coeff n * x ^ n) x :> (\<Sum>n. diffs Si_coeff n * x ^ n)"
    by (rule termdiffs_strong_converges_everywhere) (rule summable_Si)
  then show ?thesis unfolding Si_def [abs_def] by (rule DERIV_isCont)
qed

lemma isCont_Cin: "isCont Cin x"
proof -
  have "DERIV (\<lambda>x. \<Sum>n. Cin_coeff n * x ^ n) x :> (\<Sum>n. diffs Cin_coeff n * x ^ n)"
    by (rule termdiffs_strong_converges_everywhere) (rule summable_Cin)
  then show ?thesis unfolding Cin_def [abs_def] by (rule DERIV_isCont)
qed

lemma Si_0 [simp]: "Si 0 = 0"
  by (simp add: Si_def Si_coeff_def)

lemma Cin_0 [simp]: "Cin 0 = 0"
  by (simp add: Cin_def Cin_coeff_def)

lemma DERIV_Ci: "0 < x \<Longrightarrow> DERIV Ci x :> cos x / x"
proof -
  assume x: "0 < x"
  have "DERIV ln x :> 1 / x" using x by (simp add: DERIV_ln_divide)
  moreover have "DERIV Cin x :> (cos x - 1) / x" using x by (intro DERIV_Cin) simp
  ultimately have "DERIV (\<lambda>x. euler_gamma + ln x + Cin x) x :> 0 + 1 / x + (cos x - 1) / x"
    by (intro DERIV_add DERIV_const)
  moreover have "0 + 1 / x + (cos x - 1) / x = cos x / x"
    using x by (simp add: field_simps)
  moreover have "eventually (\<lambda>y. Ci y = euler_gamma + ln y + Cin y) (nhds x)"
    using eventually_nhds_in_open [of "{0<..}" x] x
    by (auto simp: Ci_def elim!: eventually_mono)
  ultimately show ?thesis
    by (metis (no_types, lifting) DERIV_cong_ev eventually_mono)
qed

lemma Si_diff_bound:
  assumes "0 < y1" and "y1 \<le> y2"
  shows "\<bar>Si y2 - Si y1\<bar> \<le> 3 / y1"
proof -
  have d1: "DERIV (\<lambda>y. Si y + cos y / y - 1 / y) y :> (1 - cos y) / y\<^sup>2" if "0 < y" for y
    using that by (auto intro!: derivative_eq_intros DERIV_Si simp: field_simps power2_eq_square)
  have d2: "DERIV (\<lambda>y. Si y + cos y / y + 1 / y) y :> - (1 + cos y) / y\<^sup>2" if "0 < y" for y
    using that by (auto intro!: derivative_eq_intros DERIV_Si simp: field_simps power2_eq_square)
  have "Si y1 + cos y1 / y1 - 1 / y1 \<le> Si y2 + cos y2 / y2 - 1 / y2"
  proof (rule DERIV_nonneg_imp_nondecreasing [OF assms(2)])
    fix y assume "y1 \<le> y" "y \<le> y2"
    with assms(1) have y: "0 < y" by simp
    have "0 \<le> (1 - cos y) / y\<^sup>2" by (intro divide_nonneg_nonneg) simp_all
    with d1 [OF y] show "\<exists>D. DERIV (\<lambda>y. Si y + cos y / y - 1 / y) y :> D \<and> 0 \<le> D" by blast
  qed
  moreover have "Si y2 + cos y2 / y2 + 1 / y2 \<le> Si y1 + cos y1 / y1 + 1 / y1"
  proof (rule DERIV_nonpos_imp_nonincreasing [OF assms(2)])
    fix y assume "y1 \<le> y" "y \<le> y2"
    with assms(1) have y: "0 < y" by simp
    have "0 \<le> 1 + cos y" using cos_ge_minus_one [of y] by linarith
    then have "0 \<le> (1 + cos y) / y\<^sup>2"
      by (intro divide_nonneg_nonneg) simp_all
    then have "- ((1 + cos y) / y\<^sup>2) \<le> 0" by (simp only: neg_le_0_iff_le)
    then have "- (1 + cos y) / y\<^sup>2 \<le> 0" by (simp only: minus_divide_left)
    with d2 [OF y] show "\<exists>D. DERIV (\<lambda>y. Si y + cos y / y + 1 / y) y :> D \<and> D \<le> 0" by blast
  qed
  moreover have "\<bar>cos y1 / y1\<bar> \<le> 1 / y1" using assms(1)
    by (simp add: abs_divide divide_right_mono)
  moreover have "\<bar>cos y2 / y2\<bar> \<le> 1 / y2" using assms
    by (simp add: abs_divide divide_right_mono)
  moreover have "1 / y2 \<le> 1 / y1" and "0 < 1 / y2" using assms by (simp_all add: field_simps)
  moreover have "3 / y1 = 1 / y1 + 1 / y1 + 1 / y1" by simp
  ultimately show ?thesis by (simp only: abs_le_iff) linarith
qed

lemma Ci_diff_bound:
  assumes "0 < y1" and "y1 \<le> y2"
  shows "\<bar>Ci y2 - Ci y1\<bar> \<le> 3 / y1"
proof -
  have d1: "DERIV (\<lambda>y. Ci y - sin y / y - 1 / y) y :> (1 + sin y) / y\<^sup>2" if "0 < y" for y
    using that by (auto intro!: derivative_eq_intros DERIV_Ci simp: field_simps power2_eq_square)
  have d2: "DERIV (\<lambda>y. Ci y - sin y / y + 1 / y) y :> - (1 - sin y) / y\<^sup>2" if "0 < y" for y
    using that by (auto intro!: derivative_eq_intros DERIV_Ci simp: field_simps power2_eq_square)
  have "Ci y1 - sin y1 / y1 - 1 / y1 \<le> Ci y2 - sin y2 / y2 - 1 / y2"
  proof (rule DERIV_nonneg_imp_nondecreasing [OF assms(2)])
    fix y assume "y1 \<le> y" "y \<le> y2"
    with assms(1) have y: "0 < y" by simp
    have "0 \<le> 1 + sin y" using sin_ge_minus_one [of y] by linarith
    then have "0 \<le> (1 + sin y) / y\<^sup>2" by (intro divide_nonneg_nonneg) simp_all
    with d1 [OF y] show "\<exists>D. DERIV (\<lambda>y. Ci y - sin y / y - 1 / y) y :> D \<and> 0 \<le> D" by blast
  qed
  moreover have "Ci y2 - sin y2 / y2 + 1 / y2 \<le> Ci y1 - sin y1 / y1 + 1 / y1"
  proof (rule DERIV_nonpos_imp_nonincreasing [OF assms(2)])
    fix y assume "y1 \<le> y" "y \<le> y2"
    with assms(1) have y: "0 < y" by simp
    have "0 \<le> 1 - sin y" using sin_le_one [of y] by linarith
    then have "0 \<le> (1 - sin y) / y\<^sup>2" by (intro divide_nonneg_nonneg) simp_all
    then have "- ((1 - sin y) / y\<^sup>2) \<le> 0" by (simp only: neg_le_0_iff_le)
    then have "- (1 - sin y) / y\<^sup>2 \<le> 0" by (simp only: minus_divide_left)
    with d2 [OF y] show "\<exists>D. DERIV (\<lambda>y. Ci y - sin y / y + 1 / y) y :> D \<and> D \<le> 0" by blast
  qed
  moreover have "\<bar>sin y1 / y1\<bar> \<le> 1 / y1" using assms(1)
    by (simp add: abs_divide divide_right_mono)
  moreover have "\<bar>sin y2 / y2\<bar> \<le> 1 / y2" using assms
    by (simp add: abs_divide divide_right_mono)
  moreover have "1 / y2 \<le> 1 / y1" and "0 < 1 / y2" using assms by (simp_all add: field_simps)
  moreover have "3 / y1 = 1 / y1 + 1 / y1 + 1 / y1" by simp
  ultimately show ?thesis by (simp only: abs_le_iff) linarith
qed

lemma nfw_numerator_bound:
  assumes "0 < c" and "0 < x"
  shows "\<bar>nfw_numerator c x\<bar> \<le> 7 / x"
proof -
  have le: "x \<le> (1 + c) * x" using assms by (simp add: algebra_simps)
  have "\<bar>sin x * (Si ((1 + c) * x) - Si x)\<bar> \<le> 1 * (3 / x)"
    unfolding abs_mult using Si_diff_bound [OF assms(2) le]
    by (intro mult_mono) simp_all
  moreover have "\<bar>cos x * (Ci ((1 + c) * x) - Ci x)\<bar> \<le> 1 * (3 / x)"
    unfolding abs_mult using Ci_diff_bound [OF assms(2) le]
    by (intro mult_mono) simp_all
  moreover have "\<bar>sin (c * x) * 1 / ((1 + c) * x)\<bar> \<le> 1 / x"
  proof -
    have "\<bar>sin (c * x) * 1 / ((1 + c) * x)\<bar> = \<bar>sin (c * x)\<bar> / ((1 + c) * x)"
      using assms by (simp add: abs_divide abs_mult)
    also have "\<dots> \<le> 1 / ((1 + c) * x)"
      using assms by (intro divide_right_mono) simp_all
    also have "\<dots> \<le> 1 / x"
      using assms le by (intro divide_left_mono) simp_all
    finally show ?thesis .
  qed
  moreover have "7 / x = 1 * (3 / x) + 1 * (3 / x) + 1 / x" by simp
  ultimately show ?thesis unfolding nfw_numerator_def by (simp only: abs_le_iff) linarith
qed

lemma nfw_numerator_at_top:
  assumes "0 < c"
  shows "(nfw_numerator c \<longlongrightarrow> 0) at_top"
proof (rule tendsto_0_le [where f = "\<lambda>x. 1 / x" and K = 7])
  show "((\<lambda>x::real. 1 / x) \<longlongrightarrow> 0) at_top"
    using tendsto_inverse_0_at_top [OF filterlim_ident [of "at_top :: real filter"]]
    by (simp add: inverse_eq_divide)
  show "\<forall>\<^sub>F x in at_top. norm (nfw_numerator c x) \<le> norm (1 / x) * 7"
    using eventually_gt_at_top [of 0]
  proof eventually_elim
    case (elim x)
    with nfw_numerator_bound [OF assms elim] show ?case by simp
  qed
qed

lemma Ci_diff_eq:
  assumes "0 < b" and "x \<noteq> 0"
  shows "Ci (b * x) - Ci x = ln b + (Cin (b * x) - Cin x)"
proof -
  have "ln \<bar>b * x\<bar> = ln b + ln \<bar>x\<bar>"
    using assms by (simp add: abs_mult ln_mult)
  then show ?thesis by (simp add: Ci_def)
qed

lemma sin_over_x_limit:
  fixes c b :: real
  assumes "b \<noteq> 0"
  shows "(\<lambda>x. sin (c * x) * 1 / (b * x)) \<midarrow>0\<rightarrow> c / b"
proof -
  have "DERIV (\<lambda>x. sin (c * x) / b) 0 :> c / b"
    using assms by (auto intro!: derivative_eq_intros)
  then have "(\<lambda>h. (sin (c * (0 + h)) / b - sin (c * 0) / b) / h) \<midarrow>0\<rightarrow> c / b"
    by (simp only: DERIV_def)
  then show ?thesis by (simp add: field_simps)
qed

lemma nfw_numerator_at_0:
  assumes "0 < c"
  shows "nfw_numerator c \<midarrow>0\<rightarrow> ln (1 + c) - c / (1 + c)"
proof -
  let ?b = "1 + c"
  have b: "0 < ?b" using assms by simp
  have Sib: "(\<lambda>x. Si (?b * x)) \<midarrow>0\<rightarrow> Si (?b * 0)"
    by (rule isCont_tendsto_compose [OF isCont_Si]) (auto intro!: tendsto_eq_intros)
  have Si0: "Si \<midarrow>0\<rightarrow> Si 0" using isCont_Si [of 0] by (simp only: isCont_def)
  have Cinb: "(\<lambda>x. Cin (?b * x)) \<midarrow>0\<rightarrow> Cin (?b * 0)"
    by (rule isCont_tendsto_compose [OF isCont_Cin]) (auto intro!: tendsto_eq_intros)
  have Cin0: "Cin \<midarrow>0\<rightarrow> Cin 0" using isCont_Cin [of 0] by (simp only: isCont_def)
  have s: "sin \<midarrow>0::real\<rightarrow> sin 0" using isCont_sin [of 0] by (simp only: isCont_def)
  have co: "cos \<midarrow>0::real\<rightarrow> cos 0" using isCont_cos [of 0] by (simp only: isCont_def)
  have "(\<lambda>x. sin x * (Si (?b * x) - Si x) + cos x * (ln ?b + (Cin (?b * x) - Cin x))
            - sin (c * x) * 1 / (?b * x))
        \<midarrow>0\<rightarrow> sin 0 * (Si (?b * 0) - Si 0) + cos 0 * (ln ?b + (Cin (?b * 0) - Cin 0)) - c / ?b"
    by (intro tendsto_diff tendsto_add tendsto_mult tendsto_const s co Sib Si0 Cinb Cin0
          sin_over_x_limit b [THEN less_imp_neq, THEN not_sym])
  then have "(\<lambda>x. sin x * (Si (?b * x) - Si x) + cos x * (ln ?b + (Cin (?b * x) - Cin x))
            - sin (c * x) * 1 / (?b * x))
        \<midarrow>0\<rightarrow> ln ?b - c / ?b"
    by simp
  moreover have "\<forall>\<^sub>F x in at 0. sin x * (Si (?b * x) - Si x)
            + cos x * (ln ?b + (Cin (?b * x) - Cin x)) - sin (c * x) * 1 / (?b * x)
          = nfw_numerator c x"
    unfolding eventually_at_filter
    by (rule always_eventually) (simp add: nfw_numerator_def Ci_diff_eq [OF b])
  ultimately show ?thesis by (rule Lim_transform_eventually)
qed

lemma nfw_denominator_pos:
  fixes c :: real
  assumes "0 < c"
  shows "0 < ln (1 + c) - c * 1 / (1 + c)"
proof -
  let ?y = "1 / (1 + c)"
  have c1: "0 < 1 + c" using assms by linarith
  then have y: "0 < ?y" by simp
  have "?y \<noteq> 1" using assms c1 by (simp add: field_simps)
  with ln_eq_minus_one [OF y] have "ln ?y \<noteq> ?y - 1" by blast
  with ln_le_minus_one [OF y] have "ln ?y < ?y - 1" by simp
  moreover have "ln ?y = - ln (1 + c)" using assms by (simp add: ln_div)
  moreover have "?y - 1 = - (c / (1 + c))" using assms by (simp add: field_simps)
  ultimately show ?thesis by simp
qed

lemma u_NFW_nonzero:
  "x \<noteq> 0 \<Longrightarrow> u_NFW c x = Some (1 / (ln (1 + c) - c * 1 / (1 + c)) * nfw_numerator c x)"
  by (simp add: u_NFW_def nfw_numerator_def Let_def)

lemma u_NFW_at_0:
  assumes "0 < c"
  shows "(\<lambda>x. the (u_NFW c x)) \<midarrow>0\<rightarrow> 1"
proof -
  let ?den = "ln (1 + c) - c * 1 / (1 + c)"
  have den: "?den \<noteq> 0" using nfw_denominator_pos [OF assms] by simp
  have "nfw_numerator c \<midarrow>0\<rightarrow> ?den"
    using nfw_numerator_at_0 [OF assms] by simp
  then have "(\<lambda>x. 1 / ?den * nfw_numerator c x) \<midarrow>0\<rightarrow> 1 / ?den * ?den"
    by (rule tendsto_mult_left)
  then have "(\<lambda>x. 1 / ?den * nfw_numerator c x) \<midarrow>0\<rightarrow> 1"
    using den by simp
  moreover have "\<forall>\<^sub>F x in at 0. 1 / ?den * nfw_numerator c x = the (u_NFW c x)"
    unfolding eventually_at_filter
    by (rule always_eventually) (simp add: u_NFW_nonzero)
  ultimately show ?thesis by (rule Lim_transform_eventually)
qed

lemma u_NFW_at_top:
  assumes "0 < c"
  shows "((\<lambda>x. the (u_NFW c x)) \<longlongrightarrow> 0) at_top"
proof -
  let ?den = "ln (1 + c) - c * 1 / (1 + c)"
  have "((\<lambda>x. 1 / ?den * nfw_numerator c x) \<longlongrightarrow> 1 / ?den * 0) at_top"
    by (rule tendsto_mult_left) (rule nfw_numerator_at_top [OF assms])
  then have "((\<lambda>x. 1 / ?den * nfw_numerator c x) \<longlongrightarrow> 0) at_top" by simp
  moreover have "\<forall>\<^sub>F x in at_top. 1 / ?den * nfw_numerator c x = the (u_NFW c x)"
    using eventually_gt_at_top [of 0]
  proof eventually_elim
    case (elim x)
    then show ?case by (simp add: u_NFW_nonzero)
  qed
  ultimately show ?thesis by (rule Lim_transform_eventually)
qed

section \<open>The claims\<close>

subsection \<open>C1: the 1-halo term and its damping at low \<open>k\<close>\<close>

text \<open>
  C1, as the code has it. For every redshift \<open>z ! iz\<close> and every scale \<open>k ! ik\<close> of the grid,
  \<^verbatim>\<open>pk_1h[iz, ik]\<close> is the trapezoidal integral over \<open>ln M\<close> of
  \<open>M (M / \<rho>\<^sub>f\<^sub>i\<^sub>e\<^sub>l\<^sub>d)\<^sup>2 hmf(z, M) u(z, M, k)\<^sup>2\<close> (\<open>one_halo_integral\<close>, over the column of \<open>u\<close> at
  \<open>ik\<close>) multiplied by \<open>(1 - (e\<^sup>-\<^sup>k\<^sup>/\<^sup>k\<^sup>*)\<^sup>2)\<^sup>3\<close>, which is \<open>(1 - e\<^sup>-\<^sup>2\<^sup>k\<^sup>/\<^sup>k\<^sup>*)\<^sup>3\<close>: the exponential
  is squared before it is subtracted from 1, and the difference is cubed. The entry is
  \<open>None\<close> exactly when an entry of the column of \<open>u\<close> is.
\<close>

theorem one_halo_term:
  assumes "halofit_operator_init ext z k pk field BAO_smearing cosmology = Inr HO"
    and "iz < length z" and "ik < length k"
  shows "self_pk_1h HO ! iz ! ik
       = map_option (\<lambda>integral. integral * (1 - (exp (- (k ! ik) / (self_k_star HO ! iz)))\<^sup>2) ^ 3)
           (one_halo_integral (self_mass HO) (self_rho_field HO)
              (hmf_of ext (self_rho_field HO) (self_mass HO) (self_nu HO) ! iz)
              (map (\<lambda>j. u_of k (self_mass HO) (self_nu HO) (self_eta HO) (self_rs HO)
                           (self_conc HO) (length z) ! iz ! j ! ik) [0..<length (self_mass HO)]))
     \<and> (1 - (exp (- (k ! ik) / (self_k_star HO ! iz)))\<^sup>2) ^ 3
         = (1 - exp (- 2 * (k ! ik) / (self_k_star HO ! iz))) ^ 3"
proof -
  from assms(1) obtain s where s: "halofit_setup_init z k pk field BAO_smearing cosmology = Inr s"
    and c: "compute_nonlinear_pk ext cosmology s = Inr HO"
    by (auto simp: halofit_operator_init_Inr)
  note f = halofit_setup_init_fields [OF s] and g = compute_nonlinear_pk_fields [OF c]
  have z: "self_z HO = z" and k: "self_k HO = k" using f g by simp_all
  have "self_pk_1h HO ! iz ! ik
      = map_option (\<lambda>v. v * one_halo_damping (k ! ik) (self_k_star HO ! iz))
           (one_halo_integral (self_mass HO) (self_rho_field HO)
              (hmf_of ext (self_rho_field HO) (self_mass HO) (self_nu HO) ! iz)
              (map (\<lambda>j. u_of k (self_mass HO) (self_nu HO) (self_eta HO) (self_rs HO)
                           (self_conc HO) (length z) ! iz ! j ! ik) [0..<length (self_mass HO)]))"
    unfolding g(13) z k by (rule pk_1h_table_nth [OF assms(2,3)])
  moreover have "one_halo_damping (k ! ik) (self_k_star HO ! iz)
      = (1 - (exp (- (k ! ik) / (self_k_star HO ! iz)))\<^sup>2) ^ 3"
    by (simp add: one_halo_damping_def)
  ultimately show ?thesis
    using one_halo_damping_alt [of "k ! ik" "self_k_star HO ! iz"] by simp
qed

theorem one_halo_term_witness:
  "\<exists>HO. halofit_operator_init externals_example [0] k_grid (flat_spectrum k_grid [0]) ''cb'' True
          cosmo_example = Inr HO
     \<and> (0::nat) < length [0::real] \<and> (0::nat) < length k_grid
     \<and> self_pk_1h HO ! 0 ! 0
       = map_option (\<lambda>integral. integral * (1 - (exp (- (k_grid ! 0) / (self_k_star HO ! 0)))\<^sup>2) ^ 3)
           (one_halo_integral (self_mass HO) (self_rho_field HO)
              (hmf_of externals_example (self_rho_field HO) (self_mass HO) (self_nu HO) ! 0)
              (map (\<lambda>j. u_of k_grid (self_mass HO) (self_nu HO) (self_eta HO) (self_rs HO)
                           (self_conc HO) (length [0::real]) ! 0 ! j ! 0) [0..<length (self_mass HO)]))"
proof -
  from halofit_example_succeeds [of "''cb''" True] obtain HO where
    HO: "halofit_operator_init externals_example [0] k_grid (flat_spectrum k_grid [0]) ''cb'' True
          cosmo_example = Inr HO" by blast
  have a: "(0::nat) < length [0::real]" by simp
  have b: "(0::nat) < length k_grid" by (simp add: length_k_grid)
  from one_halo_term [OF HO a b] HO a b show ?thesis by blast
qed

text \<open>
  The factor of the claim as stated, \<open>(1 - e\<^sup>-\<^sup>k\<^sup>/\<^sup>k\<^sup>*)\<^sup>6\<close>, is not the factor of the code: at
  \<open>k = k* = 1\<close> the two differ.
\<close>

theorem one_halo_damping_counterexample:
  "one_halo_damping 1 1 \<noteq> (1 - exp (- 1 / 1)) ^ 6"
proof -
  define t :: real where "t = exp (- 1)"
  have t0: "0 < t" and t1: "t < 1" by (simp_all add: t_def)
  have "(1 - t) ^ 3 < (1 + t) ^ 3"
    using t0 t1 by (intro power_strict_mono) simp_all
  moreover have "0 < (1 - t) ^ 3" using t1 by simp
  ultimately have "(1 - t) ^ 3 * (1 - t) ^ 3 < (1 - t) ^ 3 * (1 + t) ^ 3"
    by (rule mult_strict_left_mono)
  moreover have "(1 - t) ^ 3 * (1 - t) ^ 3 = (1 - t) ^ 6"
    by (simp add: power_add [symmetric])
  moreover have "(1 - t) ^ 3 * (1 + t) ^ 3 = (1 - t\<^sup>2) ^ 3"
    by (simp add: power_mult_distrib [symmetric] power2_eq_square algebra_simps)
  ultimately have "(1 - t) ^ 6 < (1 - t\<^sup>2) ^ 3" by simp
  then show ?thesis by (simp add: one_halo_damping_def t_def)
qed

subsection \<open>C2: a \<open>k\<close> array that is too short or too narrow\<close>

text \<open>
  C2, as the code has it. Both constructors open with three assertions on \<open>k\<close>. When
  \<open>k\<close> has at most 100 points, or its largest value is below 10, or its smallest value is
  above 0.001, constructing \<^verbatim>\<open>halofit_operator\<close> and constructing \<^verbatim>\<open>nonlinear_pk\<close>
  both raise \<^verbatim>\<open>AssertionError\<close>: no warning, and no result.
\<close>

theorem insufficient_k_is_fatal:
  assumes "length k \<le> 100 \<or> amax k < 10 \<or> amin k > 0.001"
  shows "(\<exists>msg. halofit_operator_init ext z k pk field BAO_smearing cosmology
                  = Inl (AssertionError msg))
       \<and> (\<exists>msg. nonlinear_pk_init ext z k code BAO_smearing cosmology
                  = Inl (AssertionError msg))"
proof -
  from k_assertions_fail [OF assms] obtain msg where "k_assertions k = Inl (AssertionError msg)"
    by blast
  then show ?thesis
    using halofit_operator_init_k_fail nonlinear_pk_init_k_fail by blast
qed

theorem insufficient_k_is_fatal_witness:
  "(length [0.001, 10 :: real] \<le> 100 \<or> amax [0.001, 10] < 10 \<or> amin [0.001, 10] > 0.001)
   \<and> (\<exists>msg. halofit_operator_init externals_example [0] [0.001, 10] [[1, 1]] ''cb'' True cosmo_example
               = Inl (AssertionError msg))
   \<and> (\<exists>msg. nonlinear_pk_init externals_example [0] [0.001, 10] ''camb'' True cosmo_example
               = Inl (AssertionError msg))"
proof -
  have h: "length [0.001, 10 :: real] \<le> 100 \<or> amax [0.001, 10] < 10 \<or> amin [0.001, 10] > 0.001"
    by simp
  from insufficient_k_is_fatal [OF h] h show ?thesis by blast
qed

text \<open>
  The claim as stated (a short \<open>k\<close> array gives a degraded result and no exception)
  fails for the two scales \<open>[0.001, 10]\<close>.
\<close>

theorem insufficient_k_counterexample:
  "halofit_operator_init externals_example [0] [0.001, 10] [[1, 1]] ''cb'' True cosmo_example
     = Inl (AssertionError ''k must have a length greater than 100 points'')"
  by (simp add: halofit_operator_init_def halofit_setup_init_def k_assertions_def)

subsection \<open>C3: the normalisation of the NFW profile\<close>

text \<open>
  C3, as the code has it. For every concentration \<open>c > 0\<close>: at \<open>x = 0\<close> itself the
  expression of the source has no value (\<^verbatim>\<open>nan\<close>, from \<^verbatim>\<open>0./0.\<close> and \<^verbatim>\<open>-inf - (-inf)\<close>);
  at every \<open>x \<noteq> 0\<close> it is the closed form, whose denominator \<open>ln (1 + c) - c / (1 + c)\<close>
  is positive; \<open>u_NFW(c, x)\<close> tends to 1 as \<open>x\<close> tends to 0, and to 0 as \<open>x\<close> tends to
  infinity.
\<close>

theorem u_NFW_normalisation:
  assumes "0 < c"
  shows "u_NFW c 0 = None
     \<and> (\<forall>x. x \<noteq> 0 \<longrightarrow>
           u_NFW c x = Some (1 / (ln (1 + c) - c / (1 + c)) * nfw_numerator c x))
     \<and> 0 < ln (1 + c) - c / (1 + c)
     \<and> (\<lambda>x. the (u_NFW c x)) \<midarrow>0\<rightarrow> 1
     \<and> ((\<lambda>x. the (u_NFW c x)) \<longlongrightarrow> 0) at_top"
proof (intro conjI allI impI)
  show "u_NFW c 0 = None" by (simp add: u_NFW_def)
  show "0 < ln (1 + c) - c / (1 + c)" using nfw_denominator_pos [OF assms] by simp
  show "(\<lambda>x. the (u_NFW c x)) \<midarrow>0\<rightarrow> 1" by (rule u_NFW_at_0 [OF assms])
  show "((\<lambda>x. the (u_NFW c x)) \<longlongrightarrow> 0) at_top" by (rule u_NFW_at_top [OF assms])
next
  fix x :: real
  assume "x \<noteq> 0"
  then show "u_NFW c x = Some (1 / (ln (1 + c) - c / (1 + c)) * nfw_numerator c x)"
    using u_NFW_nonzero [of x c] by simp
qed

theorem u_NFW_normalisation_witness:
  "(0::real) < 1
   \<and> u_NFW 1 0 = None
   \<and> u_NFW 1 2 = Some (1 / (ln (1 + 1) - 1 / (1 + 1)) * nfw_numerator 1 2)
   \<and> (\<lambda>x. the (u_NFW 1 x)) \<midarrow>0\<rightarrow> 1
   \<and> ((\<lambda>x. the (u_NFW 1 x)) \<longlongrightarrow> 0) at_top"
proof -
  have h: "(0::real) < 1" by simp
  note t = u_NFW_normalisation [OF h]
  from t have "\<forall>x. x \<noteq> 0 \<longrightarrow>
           u_NFW 1 x = Some (1 / (ln (1 + 1) - 1 / (1 + 1)) * nfw_numerator 1 x)"
    by (rule conjunct2 [THEN conjunct1])
  then have "u_NFW 1 2 = Some (1 / (ln (1 + 1) - 1 / (1 + 1)) * nfw_numerator 1 2)"
    by simp
  with t h show ?thesis by blast
qed

text \<open>The claim as stated has \<open>u_NFW(c, 0) = 1\<close>; the code returns \<^verbatim>\<open>nan\<close> there.\<close>

theorem u_NFW_at_zero_counterexample:
  "u_NFW 1 0 \<noteq> Some 1"
  by (simp add: u_NFW_def)

subsection \<open>C4: the effective spectral index\<close>




subsection \<open>C5: the formation redshift and the redshift\<close>




subsection \<open>C6: without BAO smearing the de-wiggled spectrum is the input\<close>

text \<open>
  C6. When \<^verbatim>\<open>halofit_operator\<close> is constructed with \<^verbatim>\<open>BAO_smearing = False\<close>, the
  de-wiggled spectrum \<^verbatim>\<open>pk_dw\<close> of the object (and \<^verbatim>\<open>pk_nw\<close>) is the input array \<^verbatim>\<open>pk\<close>
  itself, of shape \<open>(len(z), len(k))\<close>: equal at every \<open>(z, k)\<close>.
\<close>

theorem no_smearing_identity:
  assumes "halofit_operator_init ext z k pk field False cosmology = Inr HO"
  shows "self_pk_dw HO = pk \<and> self_pk_nw HO = pk \<and> self_pk HO = pk
       \<and> shape_is (self_pk_dw HO) (length z) (length k)"
proof -
  from assms obtain s where s: "halofit_setup_init z k pk field False cosmology = Inr s"
    and c: "compute_nonlinear_pk ext cosmology s = Inr HO"
    by (auto simp: halofit_operator_init_Inr)
  note f = halofit_setup_init_fields [OF s] and g = compute_nonlinear_pk_fields [OF c]
  from f(10) have "self_pk_nw s = pk" and "self_pk_dw s = pk"
    by (auto simp: bao_smearing_off)
  with f(3,8) g(3,4,5) show ?thesis by simp
qed

theorem no_smearing_identity_witness:
  "\<exists>HO. halofit_operator_init externals_example [0] k_grid (flat_spectrum k_grid [0]) ''cb'' False
           cosmo_example = Inr HO
       \<and> self_pk_dw HO = flat_spectrum k_grid [0]"
proof -
  have "\<exists>HO. halofit_operator_init externals_example [0] k_grid (flat_spectrum k_grid [0]) ''cb'' False
           cosmo_example = Inr HO"
  proof (rule halofit_operator_init_succeeds)
    show "shape_is (flat_spectrum k_grid [0]) (length [0::real]) (length k_grid)"
      by (rule shape_flat)
  qed (simp_all add: length_k_grid amax_k_grid amin_k_grid [simplified]
         extrapolation_covers_example)
  then obtain HO where HO: "halofit_operator_init externals_example [0] k_grid
      (flat_spectrum k_grid [0]) ''cb'' False cosmo_example = Inr HO" by blast
  from no_smearing_identity [OF HO] HO show ?thesis by blast
qed

subsection \<open>C7: the shape of \<open>pk\<close>\<close>

text \<open>
  C7, as the code has it. The shape of \<^verbatim>\<open>pk\<close> is checked after the assertions on \<open>k\<close>
  and after the block that builds \<^verbatim>\<open>pk_nw\<close> and \<^verbatim>\<open>pk_dw\<close>. When the assertions pass and
  that block completes, which it always does without smearing, a \<^verbatim>\<open>pk\<close> whose shape is
  not \<open>(len(z), len(k))\<close> raises \<^verbatim>\<open>IndexError("pk must be of shape (len(z), len(k))")\<close>
  in the set-up, before the mass grid and every table of \<^verbatim>\<open>compute_nonlinear_pk\<close>. A
  well-shaped \<^verbatim>\<open>pk\<close> never raises it.
\<close>

theorem shape_check_after_guards:
  "(100 < length k \<and> 10 \<le> amax k \<and> amin k \<le> 0.001
      \<and> (\<exists>t. bao_smearing cosmology k pk (length z) BAO_smearing = Inr t)
      \<and> \<not> shape_is pk (length z) (length k)
    \<longrightarrow> halofit_setup_init z k pk field BAO_smearing cosmology = Inl shape_error
      \<and> halofit_operator_init ext z k pk field BAO_smearing cosmology = Inl shape_error)
   \<and> bao_smearing cosmology k pk (length z) False = Inr (pk, pk)
   \<and> (shape_is pk (length z) (length k)
    \<longrightarrow> halofit_operator_init ext z k pk field BAO_smearing cosmology \<noteq> Inl shape_error)"
proof (intro conjI impI)
  assume a: "100 < length k \<and> 10 \<le> amax k \<and> amin k \<le> 0.001
      \<and> (\<exists>t. bao_smearing cosmology k pk (length z) BAO_smearing = Inr t)
      \<and> \<not> shape_is pk (length z) (length k)"
  then show s: "halofit_setup_init z k pk field BAO_smearing cosmology = Inl shape_error"
    by (intro halofit_setup_init_shape_error) simp_all
  then show "halofit_operator_init ext z k pk field BAO_smearing cosmology = Inl shape_error"
    by (simp add: halofit_operator_init_def)
next
  show "bao_smearing cosmology k pk (length z) False = Inr (pk, pk)"
    by (rule bao_smearing_off)
next
  assume "shape_is pk (length z) (length k)"
  from halofit_setup_init_well_shaped [OF this]
  show "halofit_operator_init ext z k pk field BAO_smearing cosmology \<noteq> Inl shape_error"
    using compute_nonlinear_pk_not_shape_error
    by (auto simp: halofit_operator_init_def ebind_eq_Inl)
qed

theorem shape_check_after_guards_witness:
  "\<not> shape_is (flat_spectrum k_grid [0, 1]) (length [0::real]) (length k_grid)
   \<and> (\<exists>t. bao_smearing cosmo_example k_grid (flat_spectrum k_grid [0, 1]) (length [0::real]) True
          = Inr t)
   \<and> halofit_operator_init externals_example [0] k_grid (flat_spectrum k_grid [0, 1]) ''cb'' True
        cosmo_example = Inl shape_error
   \<and> shape_is (flat_spectrum k_grid [0]) (length [0::real]) (length k_grid)
   \<and> halofit_operator_init externals_example [0] k_grid (flat_spectrum k_grid [0]) ''cb'' True
        cosmo_example \<noteq> Inl shape_error"
proof -
  have a: "\<not> shape_is (flat_spectrum k_grid [0, 1]) (length [0::real]) (length k_grid)"
    by (simp add: shape_is_def flat_spectrum_rows)
  have b: "shape_is (flat_spectrum k_grid [0]) (length [0::real]) (length k_grid)"
    by (rule shape_flat)
  have t: "\<exists>t. bao_smearing cosmo_example k_grid (flat_spectrum k_grid [0, 1]) (length [0::real]) True
      = Inr t"
    by (rule bao_smearing_succeeds) (simp add: flat_spectrum_def remove_bao_example)
  have c: "100 < length k_grid \<and> 10 \<le> amax k_grid \<and> amin k_grid \<le> 0.001"
    using amax_k_grid amin_k_grid by (simp add: length_k_grid)
  from shape_check_after_guards [of k_grid cosmo_example "flat_spectrum k_grid [0, 1]" "[0]" True
      "''cb''" externals_example] a c t
  have "halofit_operator_init externals_example [0] k_grid (flat_spectrum k_grid [0, 1]) ''cb'' True
        cosmo_example = Inl shape_error"
    by blast
  moreover from shape_check_after_guards [of k_grid cosmo_example "flat_spectrum k_grid [0]" "[0]"
      True "''cb''" externals_example] b
  have "halofit_operator_init externals_example [0] k_grid (flat_spectrum k_grid [0]) ''cb'' True
        cosmo_example \<noteq> Inl shape_error"
    by blast
  ultimately show ?thesis using a b t by blast
qed

text \<open>
  The claim as stated (a misshaped \<^verbatim>\<open>pk\<close> raises the shape error at once, before
  anything is derived from it) fails: with smearing and a \<^verbatim>\<open>pk\<close> of one row of three
  entries, the error comes from the interpolation in \<^verbatim>\<open>remove_bao\<close>; with smearing and a
  \<^verbatim>\<open>pk\<close> without rows, from \<^verbatim>\<open>self.pk[0]\<close> in the de-wiggling block; with a \<open>k\<close> of two
  points, from the first assertion.
\<close>

theorem shape_check_counterexample:
  "\<not> shape_is [[1, 2, 3]] (length [0::real]) (length k_grid)
   \<and> halofit_operator_init externals_example [0] k_grid [[1, 2, 3]] ''cb'' True cosmo_example
       = Inl (ValueError ''x and y arrays must be equal in length along interpolation axis.'')
   \<and> \<not> shape_is [] (length [0::real]) (length k_grid)
   \<and> halofit_operator_init externals_example [0] k_grid [] ''cb'' True cosmo_example
       = Inl (IndexError ''index is out of bounds for axis 0'')
   \<and> halofit_operator_init externals_example [0] [0.001, 10] [] ''cb'' False cosmo_example
       = Inl (AssertionError ''k must have a length greater than 100 points'')"
proof -
  have k: "k_assertions k_grid = Inr ()"
    using amax_k_grid amin_k_grid by (simp add: k_assertions_pass length_k_grid)
  have "bao_smearing cosmo_example k_grid [[1, 2, 3]] (length [0::real]) True
       = Inl (ValueError ''x and y arrays must be equal in length along interpolation axis.'')"
    by (simp add: bao_smearing_def getrow_def remove_bao_call_def length_k_grid)
  with k have 1: "halofit_operator_init externals_example [0] k_grid [[1, 2, 3]] ''cb'' True
       cosmo_example
       = Inl (ValueError ''x and y arrays must be equal in length along interpolation axis.'')"
    by (simp add: halofit_operator_init_def halofit_setup_init_def)
  have "bao_smearing cosmo_example k_grid [] (length [0::real]) True
       = Inl (IndexError ''index is out of bounds for axis 0'')"
    by (simp add: bao_smearing_def getrow_def)
  with k have 2: "halofit_operator_init externals_example [0] k_grid [] ''cb'' True cosmo_example
       = Inl (IndexError ''index is out of bounds for axis 0'')"
    by (simp add: halofit_operator_init_def halofit_setup_init_def)
  have 3: "halofit_operator_init externals_example [0] [0.001, 10] [] ''cb'' False cosmo_example
       = Inl (AssertionError ''k must have a length greater than 100 points'')"
    by (simp add: halofit_operator_init_def halofit_setup_init_def k_assertions_def)
  have 4: "\<not> shape_is [[1, 2, 3]] (length [0::real]) (length k_grid)"
    by (simp add: shape_is_def length_k_grid)
  have 5: "\<not> shape_is [] (length [0::real]) (length k_grid)"
    by (simp add: shape_is_def)
  from 1 2 3 4 5 show ?thesis by blast
qed

subsection \<open>C8: the choice of the field\<close>

text \<open>
  C8. A \<^verbatim>\<open>field\<close> other than \<^verbatim>\<open>'cb'\<close> and \<^verbatim>\<open>'tot'\<close> never gives an object: the
  constructor raises, and when what comes first goes through (the assertions on \<open>k\<close>,
  the block that builds \<^verbatim>\<open>pk_nw\<close> and \<^verbatim>\<open>pk_dw\<close>, the check of the shape of \<^verbatim>\<open>pk\<close>), what
  it raises is \<^verbatim>\<open>ValueError("Field not recognized ...")\<close>. An object constructed with
  \<^verbatim>\<open>'cb'\<close> has \<open>\<rho>\<^sub>f\<^sub>i\<^sub>e\<^sub>l\<^sub>d = \<rho>\<^sub>c\<^sub>r\<^sub>i\<^sub>t(0) \<Omega>\<^sub>c\<^sub>b\<close>, one constructed with \<^verbatim>\<open>'tot'\<close> has
  \<open>\<rho>\<^sub>f\<^sub>i\<^sub>e\<^sub>l\<^sub>d = \<rho>\<^sub>c\<^sub>r\<^sub>i\<^sub>t(0) \<Omega>\<^sub>m\<close>.
\<close>

theorem field_choice:
  "(field \<noteq> ''cb'' \<and> field \<noteq> ''tot'' \<longrightarrow>
      (\<exists>e. halofit_operator_init ext z k pk field BAO_smearing cosmology = Inl e)
      \<and> (100 < length k \<and> 10 \<le> amax k \<and> amin k \<le> 0.001
           \<and> (\<exists>t. bao_smearing cosmology k pk (length z) BAO_smearing = Inr t)
           \<and> shape_is pk (length z) (length k)
           \<longrightarrow> halofit_operator_init ext z k pk field BAO_smearing cosmology = Inl field_error))
   \<and> (\<forall>HO. halofit_operator_init ext z k pk ''cb'' BAO_smearing cosmology = Inr HO
         \<longrightarrow> self_rho_field HO = rho_crit cosmology 0 * Omega_cb cosmology)
   \<and> (\<forall>HO. halofit_operator_init ext z k pk ''tot'' BAO_smearing cosmology = Inr HO
         \<longrightarrow> self_rho_field HO = rho_crit cosmology 0 * Omega_m cosmology)"
proof (intro conjI impI allI)
  assume f: "field \<noteq> ''cb'' \<and> field \<noteq> ''tot''"
  then obtain e where "halofit_setup_init z k pk field BAO_smearing cosmology = Inl e"
    using halofit_setup_init_unknown_field(1) by blast
  then show "\<exists>e. halofit_operator_init ext z k pk field BAO_smearing cosmology = Inl e"
    by (simp add: halofit_operator_init_def)
  assume "100 < length k \<and> 10 \<le> amax k \<and> amin k \<le> 0.001
           \<and> (\<exists>t. bao_smearing cosmology k pk (length z) BAO_smearing = Inr t)
           \<and> shape_is pk (length z) (length k)"
  with f have "halofit_setup_init z k pk field BAO_smearing cosmology = Inl field_error"
    by (intro halofit_setup_init_unknown_field(2)) simp_all
  then show "halofit_operator_init ext z k pk field BAO_smearing cosmology = Inl field_error"
    by (simp add: halofit_operator_init_def)
next
  fix HO
  assume "halofit_operator_init ext z k pk ''cb'' BAO_smearing cosmology = Inr HO"
  then obtain s where s: "halofit_setup_init z k pk ''cb'' BAO_smearing cosmology = Inr s"
    and c: "compute_nonlinear_pk ext cosmology s = Inr HO"
    by (auto simp: halofit_operator_init_Inr)
  from halofit_setup_init_fields(9) [OF s] compute_nonlinear_pk_fields(6) [OF c]
  show "self_rho_field HO = rho_crit cosmology 0 * Omega_cb cosmology"
    by (simp add: field_density_def)
next
  fix HO
  assume "halofit_operator_init ext z k pk ''tot'' BAO_smearing cosmology = Inr HO"
  then obtain s where s: "halofit_setup_init z k pk ''tot'' BAO_smearing cosmology = Inr s"
    and c: "compute_nonlinear_pk ext cosmology s = Inr HO"
    by (auto simp: halofit_operator_init_Inr)
  from halofit_setup_init_fields(9) [OF s] compute_nonlinear_pk_fields(6) [OF c]
  show "self_rho_field HO = rho_crit cosmology 0 * Omega_m cosmology"
    by (simp add: field_density_def)
qed

theorem field_choice_witness:
  "halofit_operator_init externals_example [0] k_grid (flat_spectrum k_grid [0]) ''matter'' True
      cosmo_example = Inl field_error
   \<and> (\<exists>HO. halofit_operator_init externals_example [0] k_grid (flat_spectrum k_grid [0]) ''cb'' True
          cosmo_example = Inr HO
        \<and> self_rho_field HO = rho_crit cosmo_example 0 * Omega_cb cosmo_example)
   \<and> (\<exists>HO. halofit_operator_init externals_example [0] k_grid (flat_spectrum k_grid [0]) ''tot'' True
          cosmo_example = Inr HO
        \<and> self_rho_field HO = rho_crit cosmo_example 0 * Omega_m cosmo_example)"
proof -
  note fc = field_choice [of _ externals_example "[0]" k_grid "flat_spectrum k_grid [0]" True
      cosmo_example]
  have t: "\<exists>t. bao_smearing cosmo_example k_grid (flat_spectrum k_grid [0]) (length [0::real]) True
      = Inr t"
    by (rule bao_smearing_well_shaped [OF shape_flat]) (simp add: remove_bao_example)
  have g: "100 < length k_grid \<and> 10 \<le> amax k_grid \<and> amin k_grid \<le> 0.001
      \<and> (\<exists>t. bao_smearing cosmo_example k_grid (flat_spectrum k_grid [0]) (length [0::real]) True
             = Inr t)
      \<and> shape_is (flat_spectrum k_grid [0]) (length [0::real]) (length k_grid)"
    using amax_k_grid amin_k_grid shape_flat [of k_grid "[0]"] t by (simp add: length_k_grid)
  have "''matter'' \<noteq> ''cb'' \<and> ''matter'' \<noteq> ''tot''" by simp
  with fc [of "''matter''"] g
  have 1: "halofit_operator_init externals_example [0] k_grid (flat_spectrum k_grid [0]) ''matter''
      True cosmo_example = Inl field_error"
    by blast
  from halofit_example_succeeds [of "''cb''" True] obtain HO1 where
    HO1: "halofit_operator_init externals_example [0] k_grid (flat_spectrum k_grid [0]) ''cb'' True
          cosmo_example = Inr HO1" by blast
  with fc [of "''cb''"]
  have 2: "self_rho_field HO1 = rho_crit cosmo_example 0 * Omega_cb cosmo_example" by blast
  from halofit_example_succeeds [of "''tot''" True] obtain HO2 where
    HO2: "halofit_operator_init externals_example [0] k_grid (flat_spectrum k_grid [0]) ''tot'' True
          cosmo_example = Inr HO2" by blast
  with fc [of "''tot''"]
  have 3: "self_rho_field HO2 = rho_crit cosmo_example 0 * Omega_m cosmo_example" by blast
  from 1 2 3 HO1 HO2 show ?thesis by blast
qed

subsection \<open>C9: the blend of the two terms\<close>

text \<open>
  C9. For every \<open>(z, k)\<close> of the grid,
  \<open>P\<^sub>n\<^sub>l = (P\<^sub>1\<^sub>h powr \<alpha> + P\<^sub>2\<^sub>h powr \<alpha>) powr (1 / \<alpha>)\<close> with
  \<open>\<alpha>(z) = 3.24 \<cdot> 1.85 powr n\<^sub>e\<^sub>f\<^sub>f(z)\<close>, and \<open>\<alpha>(z) > 0\<close> whatever \<open>n\<^sub>e\<^sub>f\<^sub>f(z)\<close> is. The three
  quantities blended are those that \<^verbatim>\<open>compute_nonlinear_pk\<close> computes from the input:
  \<open>n\<^sub>e\<^sub>f\<^sub>f\<close> from \<^verbatim>\<open>sig2\<close> and \<^verbatim>\<open>deltac\<close>, the two-halo term from the de-wiggled spectrum
  and the two displacements \<^verbatim>\<open>sigma_d\<close>, the one-halo term from the mass integral over
  the mass function and the halo profile. With smearing, the de-wiggling routine is
  taken to return as many values as it is given scales.
\<close>

theorem smooth_minimum_blend:
  assumes "halofit_operator_init ext z k pk field BAO_smearing cosmology = Inr HO"
    and "BAO_smearing \<longrightarrow>
           (\<forall>p r. length p = length k \<and> remove_bao cosmology k p = Some r \<longrightarrow> length r = length k)"
    and "iz < length z" and "ik < length k"
  shows "self_mass HO = logspace 0 18 512
     \<and> field_density cosmology field = Inr (self_rho_field HO)
     \<and> bao_smearing cosmology k pk (length z) BAO_smearing = Inr (self_pk_nw HO, self_pk_dw HO)
     \<and> sigma_d ext k pk (length z) 100 = Inr (self_sigd100 HO)
     \<and> sigma_d ext k pk (length z) (1 / 10 ^ 3) = Inr (self_sigd HO)
     \<and> length (self_sig8 HO) = length z \<and> length (self_sig2 HO) = length z
     \<and> (\<forall>i<length z. compute_sigma_8 ext k (pk ! i) = Inr (self_sig8 HO ! i)
           \<and> sigma2 ext (map (radius_of_mass (self_rho_field HO)) (self_mass HO)) k (pk ! i)
               = Inr (self_sig2 HO ! i))
     \<and> self_deltac HO
         = deltac_table cosmology (self_sig8 HO)
             (map (\<lambda>om. om * Omega_cb cosmology / Omega_m cosmology) (map (Omega_m_z cosmology) z))
     \<and> self_eta HO = map (map_option eta_bloat) (self_sig8 HO)
     \<and> self_nu HO = nu_table (self_deltac HO) (self_sig2 HO)
     \<and> z_form ext cosmology z (self_mass HO) (self_sig2 HO) (self_deltac HO) = Inr (self_zf HO)
     \<and> self_conc HO = conc_table (self_zf HO) z
     \<and> self_rv HO
         = rv_table (self_mass HO) (self_rho_field HO)
             (map (Delta_v cosmology)
                (map (\<lambda>om. om * Omega_cb cosmology / Omega_m cosmology)
                   (map (Omega_m_z cosmology) z)))
             (length z)
     \<and> self_rs HO = rs_table (self_rv HO) (self_conc HO)
     \<and> self_n_eff HO ! iz
         = n_eff_at ext (self_mass HO) (self_sig2 HO ! iz) (self_deltac HO ! iz) (z ! iz)
     \<and> self_alpha HO ! iz = 3.24 * 1.85 powr (self_n_eff HO ! iz)
     \<and> 0 < self_alpha HO ! iz
     \<and> (\<forall>n_eff. 0 < alp n_eff)
     \<and> self_pk_1h HO ! iz ! ik
         = map_option (\<lambda>integral. integral * one_halo_damping (k ! ik) (k_s (self_sigd HO ! iz)))
             (one_halo_integral (self_mass HO) (self_rho_field HO)
                (hmf_of ext (self_rho_field HO) (self_mass HO) (self_nu HO) ! iz)
                (map (\<lambda>j. u_of k (self_mass HO) (self_nu HO) (self_eta HO) (self_rs HO)
                             (self_conc HO) (length z) ! iz ! j ! ik) [0..<length (self_mass HO)]))
     \<and> self_pk_2h HO ! iz ! ik
         = self_pk_dw HO ! iz ! ik
             * (1 - fd (self_sigd100 HO ! iz)
                      * (tanh (k ! ik * self_sigd HO ! iz / sqrt (fd (self_sigd100 HO ! iz))))\<^sup>2)
     \<and> self_pk_nl HO ! iz ! ik
         = map_option
             (\<lambda>p_1h. (p_1h powr (self_alpha HO ! iz)
                        + (self_pk_2h HO ! iz ! ik) powr (self_alpha HO ! iz))
                      powr (1 / (self_alpha HO ! iz)))
             (self_pk_1h HO ! iz ! ik)"
proof -
  note g = halofit_operator_init_grounded [OF assms(1)]
  from assms(1) obtain s where s: "halofit_setup_init z k pk field BAO_smearing cosmology = Inr s"
    and c: "compute_nonlinear_pk ext cosmology s = Inr HO"
    by (auto simp: halofit_operator_init_Inr)
  note f = compute_nonlinear_pk_fields [OF c]
  note sh = halofit_table_shapes [OF assms(1,2)]
  note dw = halofit_pk_dw_shape [OF assms(1,2)]
  have l100: "length (self_sigd100 HO) = length z" by (rule sigma_d_length [OF g(12)])
  have ld: "length (self_sigd HO) = length z" by (rule sigma_d_length [OF g(13)])
  have ne: "self_n_eff HO ! iz
      = n_eff_at ext (self_mass HO) (self_sig2 HO ! iz) (self_deltac HO ! iz) (z ! iz)"
    unfolding f(11) g(1) by (rule n_eff_table_nth [OF assms(3)])
  have "length (self_n_eff HO) = length z"
    unfolding f(11) g(1) by (simp add: n_eff_table_def)
  then have a: "self_alpha HO ! iz = alp (self_n_eff HO ! iz)"
    unfolding f(12) using assms(3) by simp
  then have apos: "0 < self_alpha HO ! iz" by (simp only: alp_pos)
  from a have aeq: "self_alpha HO ! iz = 3.24 * 1.85 powr (self_n_eff HO ! iz)"
    by (simp only: alp_def)
  have ks: "self_k_star HO ! iz = k_s (self_sigd HO ! iz)"
    unfolding f(8) using assms(3) ld by simp
  have fdm: "self_fdamp HO ! iz = fd (self_sigd100 HO ! iz)"
    unfolding f(9) using assms(3) l100 by simp
  have p1: "self_pk_1h HO ! iz ! ik
         = map_option (\<lambda>integral. integral * one_halo_damping (k ! ik) (k_s (self_sigd HO ! iz)))
             (one_halo_integral (self_mass HO) (self_rho_field HO)
                (hmf_of ext (self_rho_field HO) (self_mass HO) (self_nu HO) ! iz)
                (map (\<lambda>j. u_of k (self_mass HO) (self_nu HO) (self_eta HO) (self_rs HO)
                             (self_conc HO) (length z) ! iz ! j ! ik) [0..<length (self_mass HO)]))"
    unfolding ks [symmetric] by (subst f(13), unfold g(1,2), rule pk_1h_table_nth [OF assms(3,4)])
  from dw have dwl: "length (self_pk_dw HO ! iz) = length k"
    using assms(3) by (auto simp: shape_is_def list_all_length)
  have "self_pk_2h HO ! iz ! ik
      = two_halo (self_pk_dw HO ! iz ! ik) (self_fdamp HO ! iz)
          (tanh2_table k (self_sigd HO) (self_fdamp HO) (length z) ! iz ! ik)"
    by (subst f(14), unfold g(1,2), rule pk_2h_table_nth)
      (simp_all add: assms(3,4) dwl tanh2_table_length)
  then have p2: "self_pk_2h HO ! iz ! ik
         = self_pk_dw HO ! iz ! ik
             * (1 - fd (self_sigd100 HO ! iz)
                      * (tanh (k ! ik * self_sigd HO ! iz / sqrt (fd (self_sigd100 HO ! iz))))\<^sup>2)"
    unfolding two_halo_def tanh2_table_nth [OF assms(3,4)] fdm .
  have "self_pk_nl HO ! iz ! ik
      = map_option (\<lambda>v. blend (self_alpha HO ! iz) v (self_pk_2h HO ! iz ! ik)) (self_pk_1h HO ! iz ! ik)"
    by (subst f(15), unfold g(1), rule pk_nl_table_nth) (simp_all add: assms(3,4) sh)
  then have nl: "self_pk_nl HO ! iz ! ik
         = map_option
             (\<lambda>p_1h. (p_1h powr (self_alpha HO ! iz)
                        + (self_pk_2h HO ! iz ! ik) powr (self_alpha HO ! iz))
                      powr (1 / (self_alpha HO ! iz)))
             (self_pk_1h HO ! iz ! ik)"
    unfolding blend_def .
  have sig: "compute_sigma_8 ext k (pk ! i) = Inr (self_sig8 HO ! i)
           \<and> sigma2 ext (map (radius_of_mass (self_rho_field HO)) (self_mass HO)) k (pk ! i)
               = Inr (self_sig2 HO ! i)" if "i < length z" for i
    using g(9) [OF that] g(10) [OF that] by (rule conjI)
  have rv: "self_rv HO
         = rv_table (self_mass HO) (self_rho_field HO)
             (map (Delta_v cosmology)
                (map (\<lambda>om. om * Omega_cb cosmology / Omega_m cosmology)
                   (map (Omega_m_z cosmology) z)))
             (length z)"
    using f(21) unfolding f(20) g(1) .
  show ?thesis
  proof (intro conjI allI impI)
    show "self_mass HO = logspace 0 18 512" by (rule g(4))
    show "field_density cosmology field = Inr (self_rho_field HO)" by (rule g(5))
    show "bao_smearing cosmology k pk (length z) BAO_smearing = Inr (self_pk_nw HO, self_pk_dw HO)"
      by (rule g(6))
    show "sigma_d ext k pk (length z) 100 = Inr (self_sigd100 HO)" by (rule g(12))
    show "sigma_d ext k pk (length z) (1 / 10 ^ 3) = Inr (self_sigd HO)" by (rule g(13))
    show "length (self_sig8 HO) = length z" by (rule g(7))
    show "length (self_sig2 HO) = length z" by (rule g(8))
    show "self_deltac HO
         = deltac_table cosmology (self_sig8 HO)
             (map (\<lambda>om. om * Omega_cb cosmology / Omega_m cosmology) (map (Omega_m_z cosmology) z))"
      using f(16) unfolding g(1) .
    show "self_eta HO = map (map_option eta_bloat) (self_sig8 HO)" by (rule f(17))
    show "self_nu HO = nu_table (self_deltac HO) (self_sig2 HO)" by (rule f(18))
    show "z_form ext cosmology z (self_mass HO) (self_sig2 HO) (self_deltac HO) = Inr (self_zf HO)"
      by (rule g(14))
    show "self_conc HO = conc_table (self_zf HO) z" using f(19) unfolding g(1) .
    show "self_rv HO
         = rv_table (self_mass HO) (self_rho_field HO)
             (map (Delta_v cosmology)
                (map (\<lambda>om. om * Omega_cb cosmology / Omega_m cosmology)
                   (map (Omega_m_z cosmology) z)))
             (length z)" by (rule rv)
    show "self_rs HO = rs_table (self_rv HO) (self_conc HO)" by (rule f(22))
    show "self_n_eff HO ! iz
         = n_eff_at ext (self_mass HO) (self_sig2 HO ! iz) (self_deltac HO ! iz) (z ! iz)"
      by (rule ne)
    show "self_alpha HO ! iz = 3.24 * 1.85 powr (self_n_eff HO ! iz)" by (rule aeq)
    show "0 < self_alpha HO ! iz" by (rule apos)
    show "0 < alp n_eff" for n_eff by (rule alp_pos)
    show "self_pk_1h HO ! iz ! ik
         = map_option (\<lambda>integral. integral * one_halo_damping (k ! ik) (k_s (self_sigd HO ! iz)))
             (one_halo_integral (self_mass HO) (self_rho_field HO)
                (hmf_of ext (self_rho_field HO) (self_mass HO) (self_nu HO) ! iz)
                (map (\<lambda>j. u_of k (self_mass HO) (self_nu HO) (self_eta HO) (self_rs HO)
                             (self_conc HO) (length z) ! iz ! j ! ik) [0..<length (self_mass HO)]))"
      by (rule p1)
    show "self_pk_2h HO ! iz ! ik
         = self_pk_dw HO ! iz ! ik
             * (1 - fd (self_sigd100 HO ! iz)
                      * (tanh (k ! ik * self_sigd HO ! iz / sqrt (fd (self_sigd100 HO ! iz))))\<^sup>2)"
      by (rule p2)
    show "self_pk_nl HO ! iz ! ik
         = map_option
             (\<lambda>p_1h. (p_1h powr (self_alpha HO ! iz)
                        + (self_pk_2h HO ! iz ! ik) powr (self_alpha HO ! iz))
                      powr (1 / (self_alpha HO ! iz)))
             (self_pk_1h HO ! iz ! ik)" by (rule nl)
  next
    fix i
    assume "i < length z"
    from sig [OF this] show "compute_sigma_8 ext k (pk ! i) = Inr (self_sig8 HO ! i)"
      by (rule conjunct1)
    from sig [OF \<open>i < length z\<close>]
    show "sigma2 ext (map (radius_of_mass (self_rho_field HO)) (self_mass HO)) k (pk ! i)
               = Inr (self_sig2 HO ! i)"
      by (rule conjunct2)
  qed
qed

theorem smooth_minimum_blend_witness:
  "\<exists>HO. halofit_operator_init externals_example [0] k_grid (flat_spectrum k_grid [0]) ''cb'' True
          cosmo_example = Inr HO
     \<and> (0::nat) < length [0::real] \<and> (0::nat) < length k_grid
     \<and> self_pk_dw HO = flat_spectrum k_grid [0]
     \<and> self_n_eff HO ! 0 = - 3
     \<and> self_alpha HO ! 0 = 3.24 * 1.85 powr (- 3)
     \<and> self_pk_2h HO ! 0 ! 0
         = 1 * (1 - fd (self_sigd100 HO ! 0)
                      * (tanh (k_grid ! 0 * self_sigd HO ! 0 / sqrt (fd (self_sigd100 HO ! 0))))\<^sup>2)
     \<and> self_pk_nl HO ! 0 ! 0
         = map_option
             (\<lambda>p_1h. (p_1h powr (3.24 * 1.85 powr (- 3))
                        + (self_pk_2h HO ! 0 ! 0) powr (3.24 * 1.85 powr (- 3)))
                      powr (1 / (3.24 * 1.85 powr (- 3))))
             (self_pk_1h HO ! 0 ! 0)"
proof -
  from halofit_grid_succeeds [OF extrapolation_covers_example, of "[0]" True] obtain HO where
    HO: "halofit_operator_init externals_example [0] k_grid (flat_spectrum k_grid [0]) ''cb'' True
          cosmo_example = Inr HO" ..
  have a: "(0::nat) < length [0::real]" by simp
  have b: "(0::nat) < length k_grid" by (simp add: length_k_grid)
  note t = smooth_minimum_blend [OF HO remove_bao_example_length a b]
  from t have "bao_smearing cosmo_example k_grid (flat_spectrum k_grid [0]) (length [0::real]) True
      = Inr (self_pk_nw HO, self_pk_dw HO)"
    by (rule conjunct2 [THEN conjunct2, THEN conjunct1])
  then have dw: "self_pk_dw HO = flat_spectrum k_grid [0]"
    unfolding bao_smearing_example by auto
  from t have "self_n_eff HO ! 0
         = n_eff_at externals_example (self_mass HO) (self_sig2 HO ! 0) (self_deltac HO ! 0) ([0] ! 0)"
    by blast
  then have ne: "self_n_eff HO ! 0 = - 3"
    by (simp add: n_eff_at_def Let_def externals_example_def)
  from t have "self_alpha HO ! 0 = 3.24 * 1.85 powr (self_n_eff HO ! 0)" by blast
  then have al: "self_alpha HO ! 0 = 3.24 * 1.85 powr (- 3)" unfolding ne .
  from t have "self_pk_2h HO ! 0 ! 0
         = self_pk_dw HO ! 0 ! 0
             * (1 - fd (self_sigd100 HO ! 0)
                      * (tanh (k_grid ! 0 * self_sigd HO ! 0 / sqrt (fd (self_sigd100 HO ! 0))))\<^sup>2)"
    by blast
  moreover have "self_pk_dw HO ! 0 ! 0 = 1"
    unfolding dw using b by (simp add: flat_spectrum_def)
  ultimately have p2: "self_pk_2h HO ! 0 ! 0
         = 1 * (1 - fd (self_sigd100 HO ! 0)
                      * (tanh (k_grid ! 0 * self_sigd HO ! 0 / sqrt (fd (self_sigd100 HO ! 0))))\<^sup>2)"
    by simp
  from t have "self_pk_nl HO ! 0 ! 0
         = map_option
             (\<lambda>p_1h. (p_1h powr (self_alpha HO ! 0)
                        + (self_pk_2h HO ! 0 ! 0) powr (self_alpha HO ! 0))
                      powr (1 / (self_alpha HO ! 0)))
             (self_pk_1h HO ! 0 ! 0)"
    by blast
  then have nl: "self_pk_nl HO ! 0 ! 0
         = map_option
             (\<lambda>p_1h. (p_1h powr (3.24 * 1.85 powr (- 3))
                        + (self_pk_2h HO ! 0 ! 0) powr (3.24 * 1.85 powr (- 3)))
                      powr (1 / (3.24 * 1.85 powr (- 3))))
             (self_pk_1h HO ! 0 ! 0)"
    unfolding al .
  from HO a b dw ne al p2 nl show ?thesis by (intro exI [of _ HO] conjI)
qed

subsection \<open>C10: the total matter spectrum\<close>

text \<open>
  C10. \<^verbatim>\<open>nonlinear_pk\<close> applies \<^verbatim>\<open>halofit_operator\<close> to the linear CDM+baryon spectrum
  with \<^verbatim>\<open>field = 'cb'\<close> (so \<open>\<rho>\<^sub>f\<^sub>i\<^sub>e\<^sub>l\<^sub>d = \<rho>\<^sub>c\<^sub>r\<^sub>i\<^sub>t(0) \<Omega>\<^sub>c\<^sub>b\<close>), keeps the cross and neutrino
  spectra of the Boltzmann code as they are, and at every \<open>(z, k)\<close> sets
  \<open>pk_nl = f\<^sub>c\<^sub>b\<^sup>2 pk_nl_cbcb + 2 f\<^sub>\<nu> f\<^sub>c\<^sub>b pk_cbnu + f\<^sub>\<nu>\<^sup>2 pk_nunu\<close>.
\<close>

theorem cdm_prescription:
  assumes "nonlinear_pk_init ext z k code BAO_smearing cosmology = Inr P"
  shows "\<exists>HO. halofit_operator_init ext z k (nl_pk_cbcb P) ''cb'' BAO_smearing cosmology = Inr HO
          \<and> self_rho_field HO = rho_crit cosmology 0 * Omega_cb cosmology
          \<and> nl_pk_nl_cbcb P = self_pk_nl HO
          \<and> linear_spectra cosmology code k z = Inr (nl_pk_cbcb P, nl_pk_cbnu P, nl_pk_nunu P)
          \<and> (\<forall>iz ik. iz < length (nl_pk_nl_cbcb P) \<and> iz < length (nl_pk_cbnu P)
                 \<and> iz < length (nl_pk_nunu P) \<and> ik < length (nl_pk_nl_cbcb P ! iz)
                 \<and> ik < length (nl_pk_cbnu P ! iz) \<and> ik < length (nl_pk_nunu P ! iz)
               \<longrightarrow> nl_pk_nl P ! iz ! ik
                   = map_option
                       (\<lambda>pk_nl_cbcb. (f_cb cosmology)\<^sup>2 * pk_nl_cbcb
                           + 2 * f_nu_tot cosmology * f_cb cosmology * (nl_pk_cbnu P ! iz ! ik)
                           + (f_nu_tot cosmology)\<^sup>2 * (nl_pk_nunu P ! iz ! ik))
                       (nl_pk_nl_cbcb P ! iz ! ik))"
proof -
  from nonlinear_pk_init_Inr [OF assms] obtain HO where
    "linear_spectra cosmology code k z = Inr (nl_pk_cbcb P, nl_pk_cbnu P, nl_pk_nunu P)
    \<and> halofit_operator_init ext z k (nl_pk_cbcb P) ''cb'' BAO_smearing cosmology = Inr HO
    \<and> nl_pk_nl_cbcb P = self_pk_nl HO
    \<and> nl_pk_nl P = total_matter_table cosmology (self_pk_nl HO) (nl_pk_cbnu P) (nl_pk_nunu P)" ..
  then have l: "linear_spectra cosmology code k z = Inr (nl_pk_cbcb P, nl_pk_cbnu P, nl_pk_nunu P)"
    and h: "halofit_operator_init ext z k (nl_pk_cbcb P) ''cb'' BAO_smearing cosmology = Inr HO"
    and n: "nl_pk_nl_cbcb P = self_pk_nl HO"
    and t: "nl_pk_nl P = total_matter_table cosmology (self_pk_nl HO) (nl_pk_cbnu P) (nl_pk_nunu P)"
    by simp_all
  from h obtain s where s: "halofit_setup_init z k (nl_pk_cbcb P) ''cb'' BAO_smearing cosmology = Inr s"
    and c: "compute_nonlinear_pk ext cosmology s = Inr HO"
    unfolding halofit_operator_init_Inr by (elim exE conjE)
  from halofit_setup_init_fields(9) [OF s] compute_nonlinear_pk_fields(6) [OF c]
  have rho: "self_rho_field HO = rho_crit cosmology 0 * Omega_cb cosmology"
    by (simp add: field_density_def)
  have e: "nl_pk_nl P ! iz ! ik
      = map_option
           (\<lambda>pk_nl_cbcb. (f_cb cosmology)\<^sup>2 * pk_nl_cbcb
               + 2 * f_nu_tot cosmology * f_cb cosmology * (nl_pk_cbnu P ! iz ! ik)
               + (f_nu_tot cosmology)\<^sup>2 * (nl_pk_nunu P ! iz ! ik))
           (nl_pk_nl_cbcb P ! iz ! ik)"
    if "iz < length (nl_pk_nl_cbcb P) \<and> iz < length (nl_pk_cbnu P)
                 \<and> iz < length (nl_pk_nunu P) \<and> ik < length (nl_pk_nl_cbcb P ! iz)
                 \<and> ik < length (nl_pk_cbnu P ! iz) \<and> ik < length (nl_pk_nunu P ! iz)" for iz ik
  proof -
    have "nl_pk_nl P ! iz ! ik
      = map_option (\<lambda>v. total_matter cosmology v (nl_pk_cbnu P ! iz ! ik) (nl_pk_nunu P ! iz ! ik))
         (nl_pk_nl_cbcb P ! iz ! ik)"
      unfolding t n [symmetric] using that by (intro total_matter_table_nth) simp_all
    then show ?thesis unfolding total_matter_def .
  qed
  show ?thesis
  proof (intro exI [of _ HO] conjI allI impI)
    show "halofit_operator_init ext z k (nl_pk_cbcb P) ''cb'' BAO_smearing cosmology = Inr HO"
      by (rule h)
    show "self_rho_field HO = rho_crit cosmology 0 * Omega_cb cosmology" by (rule rho)
    show "nl_pk_nl_cbcb P = self_pk_nl HO" by (rule n)
    show "linear_spectra cosmology code k z = Inr (nl_pk_cbcb P, nl_pk_cbnu P, nl_pk_nunu P)"
      by (rule l)
  next
    fix iz ik
    assume "iz < length (nl_pk_nl_cbcb P) \<and> iz < length (nl_pk_cbnu P)
                 \<and> iz < length (nl_pk_nunu P) \<and> ik < length (nl_pk_nl_cbcb P ! iz)
                 \<and> ik < length (nl_pk_cbnu P ! iz) \<and> ik < length (nl_pk_nunu P ! iz)"
    then show "nl_pk_nl P ! iz ! ik
      = map_option
           (\<lambda>pk_nl_cbcb. (f_cb cosmology)\<^sup>2 * pk_nl_cbcb
               + 2 * f_nu_tot cosmology * f_cb cosmology * (nl_pk_cbnu P ! iz ! ik)
               + (f_nu_tot cosmology)\<^sup>2 * (nl_pk_nunu P ! iz ! ik))
           (nl_pk_nl_cbcb P ! iz ! ik)"
      by (rule e)
  qed
qed

theorem cdm_prescription_witness:
  "\<exists>P HO. nonlinear_pk_init externals_example [0] k_grid ''camb'' True cosmo_example = Inr P
     \<and> halofit_operator_init externals_example [0] k_grid (nl_pk_cbcb P) ''cb'' True cosmo_example
         = Inr HO
     \<and> nl_pk_nl_cbcb P = self_pk_nl HO
     \<and> nl_pk_nl P ! 0 ! 0
         = map_option
             (\<lambda>pk_nl_cbcb. (f_cb cosmo_example)\<^sup>2 * pk_nl_cbcb
                 + 2 * f_nu_tot cosmo_example * f_cb cosmo_example * (nl_pk_cbnu P ! 0 ! 0)
                 + (f_nu_tot cosmo_example)\<^sup>2 * (nl_pk_nunu P ! 0 ! 0))
             (nl_pk_nl_cbcb P ! 0 ! 0)"
proof -
  from nonlinear_pk_example_succeeds [of "[0]" True] obtain P where
    P: "nonlinear_pk_init externals_example [0] k_grid ''camb'' True cosmo_example = Inr P" ..
  from cdm_prescription [OF P] obtain HO where c:
    "halofit_operator_init externals_example [0] k_grid (nl_pk_cbcb P) ''cb'' True cosmo_example
         = Inr HO
     \<and> self_rho_field HO = rho_crit cosmo_example 0 * Omega_cb cosmo_example
     \<and> nl_pk_nl_cbcb P = self_pk_nl HO
     \<and> linear_spectra cosmo_example ''camb'' k_grid [0]
         = Inr (nl_pk_cbcb P, nl_pk_cbnu P, nl_pk_nunu P)
     \<and> (\<forall>iz ik. iz < length (nl_pk_nl_cbcb P) \<and> iz < length (nl_pk_cbnu P)
                 \<and> iz < length (nl_pk_nunu P) \<and> ik < length (nl_pk_nl_cbcb P ! iz)
                 \<and> ik < length (nl_pk_cbnu P ! iz) \<and> ik < length (nl_pk_nunu P ! iz)
               \<longrightarrow> nl_pk_nl P ! iz ! ik
                   = map_option
                       (\<lambda>pk_nl_cbcb. (f_cb cosmo_example)\<^sup>2 * pk_nl_cbcb
                           + 2 * f_nu_tot cosmo_example * f_cb cosmo_example * (nl_pk_cbnu P ! iz ! ik)
                           + (f_nu_tot cosmo_example)\<^sup>2 * (nl_pk_nunu P ! iz ! ik))
                       (nl_pk_nl_cbcb P ! iz ! ik))" ..
  from c have h: "halofit_operator_init externals_example [0] k_grid (nl_pk_cbcb P) ''cb'' True
         cosmo_example = Inr HO" by (rule conjunct1)
  from c have n: "nl_pk_nl_cbcb P = self_pk_nl HO"
    by (rule conjunct2 [THEN conjunct2, THEN conjunct1])
  from c have l: "linear_spectra cosmo_example ''camb'' k_grid [0]
         = Inr (nl_pk_cbcb P, nl_pk_cbnu P, nl_pk_nunu P)"
    by (rule conjunct2 [THEN conjunct2, THEN conjunct2, THEN conjunct1])
  from c have a: "\<forall>iz ik. iz < length (nl_pk_nl_cbcb P) \<and> iz < length (nl_pk_cbnu P)
                 \<and> iz < length (nl_pk_nunu P) \<and> ik < length (nl_pk_nl_cbcb P ! iz)
                 \<and> ik < length (nl_pk_cbnu P ! iz) \<and> ik < length (nl_pk_nunu P ! iz)
               \<longrightarrow> nl_pk_nl P ! iz ! ik
                   = map_option
                       (\<lambda>pk_nl_cbcb. (f_cb cosmo_example)\<^sup>2 * pk_nl_cbcb
                           + 2 * f_nu_tot cosmo_example * f_cb cosmo_example * (nl_pk_cbnu P ! iz ! ik)
                           + (f_nu_tot cosmo_example)\<^sup>2 * (nl_pk_nunu P ! iz ! ik))
                       (nl_pk_nl_cbcb P ! iz ! ik)"
    by (rule conjunct2 [THEN conjunct2, THEN conjunct2, THEN conjunct2])
  have e: "0 < length (nl_pk_nl_cbcb P) \<and> 0 < length (nl_pk_cbnu P)
                 \<and> 0 < length (nl_pk_nunu P) \<and> 0 < length (nl_pk_nl_cbcb P ! 0)
                 \<and> 0 < length (nl_pk_cbnu P ! 0) \<and> 0 < length (nl_pk_nunu P ! 0)
               \<longrightarrow> nl_pk_nl P ! 0 ! 0
                   = map_option
                       (\<lambda>pk_nl_cbcb. (f_cb cosmo_example)\<^sup>2 * pk_nl_cbcb
                           + 2 * f_nu_tot cosmo_example * f_cb cosmo_example * (nl_pk_cbnu P ! 0 ! 0)
                           + (f_nu_tot cosmo_example)\<^sup>2 * (nl_pk_nunu P ! 0 ! 0))
                       (nl_pk_nl_cbcb P ! 0 ! 0)"
    using a [rule_format, of 0 0] by (intro impI)
  from l have cbnu: "nl_pk_cbnu P = flat_spectrum k_grid [0]"
    and nunu: "nl_pk_nunu P = flat_spectrum k_grid [0]"
    unfolding linear_spectra_example by auto
  note sh = halofit_table_shapes [OF h remove_bao_example_length]
  have "0 < length (nl_pk_nl_cbcb P) \<and> 0 < length (nl_pk_cbnu P)
                 \<and> 0 < length (nl_pk_nunu P) \<and> 0 < length (nl_pk_nl_cbcb P ! 0)
                 \<and> 0 < length (nl_pk_cbnu P ! 0) \<and> 0 < length (nl_pk_nunu P ! 0)"
    unfolding n cbnu nunu using sh(3) sh(6) [of 0]
    by (simp add: flat_spectrum_def length_k_grid)
  with e have "nl_pk_nl P ! 0 ! 0
         = map_option
             (\<lambda>pk_nl_cbcb. (f_cb cosmo_example)\<^sup>2 * pk_nl_cbcb
                 + 2 * f_nu_tot cosmo_example * f_cb cosmo_example * (nl_pk_cbnu P ! 0 ! 0)
                 + (f_nu_tot cosmo_example)\<^sup>2 * (nl_pk_nunu P ! 0 ! 0))
             (nl_pk_nl_cbcb P ! 0 ! 0)" ..
  with P h n show ?thesis by (intro exI [of _ P] exI [of _ HO] conjI)
qed


end
